theory Spec2Isabelle
  imports Complex_Main "HOL-Library.Sublist"
begin

section \<open>The starboard cog of LCC-bot (cogs/starboard.py)\<close>

text \<open>
  A shallow embedding of \<^verbatim>\<open>StarBoardCog\<close>: the image archiver
  \<^verbatim>\<open>archive_image\<close>, the renderer \<^verbatim>\<open>generate_starboard_embed\<close> and the
  reaction listener \<^verbatim>\<open>on_star_add\<close>.

  Conventions.
  \<^item> Python strings are \<open>string\<close>s holding UTF-8; \<open>py_len\<close> counts code points, as
    Python's \<^verbatim>\<open>len\<close> does.
  \<^item> Every exception the code can raise is a value of \<open>error\<close>; a coroutine either
    returns or raises.
  \<^item> Discord, the HTTP client and the Python standard library are outside the repository:
    what they answer is an input (the records \<open>pylib\<close> and \<open>env\<close>), what the cog asks
    them to do is an output (a list of \<open>action\<close>s, in the order of the calls).
  \<^item> The threshold \<^verbatim>\<open>n * 0.1\<close> is a Python float that the code only ever compares with
    an integer star count. For every member count \<open>n\<close> below \<open>2^52\<close> and every integer
    \<open>s\<close>, \<^verbatim>\<open>s >= n * 0.1\<close> holds in IEEE double arithmetic exactly when
    \<open>n \<le> 10 * s\<close> (the product of a multiple of ten is rounded to the exact integer,
    any other product stays strictly between two integers), so the cap is modelled as the
    rational \<open>n / 10\<close>.
\<close>

subsection \<open>Exceptions\<close>

datatype error =
    AttributeError
  | TypeError
  | IndexError
  | ValueError
  | NotFound          \<comment> \<open>discord.NotFound\<close>
  | Forbidden         \<comment> \<open>discord.Forbidden\<close>
  | HTTPException     \<comment> \<open>any other discord.HTTPException\<close>
  | NoMatch           \<comment> \<open>orm.NoMatch\<close>
  | MultipleMatches   \<comment> \<open>orm.MultipleMatches\<close>
  | HTTPError         \<comment> \<open>httpx.HTTPError\<close>

text \<open>\<^verbatim>\<open>except discord.HTTPException\<close> also catches its subclasses.\<close>

fun is_HTTPException :: "error \<Rightarrow> bool" where
  "is_HTTPException NotFound = True"
| "is_HTTPException Forbidden = True"
| "is_HTTPException HTTPException = True"
| "is_HTTPException _ = False"

subsection \<open>Strings\<close>

definition white_medium_star :: string where
  "white_medium_star = [CHR 0xE2, CHR 0xAD, CHR 0x90]"

definition no_entry_sign :: string where
  "no_entry_sign = [CHR 0xF0, CHR 0x9F, CHR 0x9A, CHR 0xAB]"

definition newline :: string where
  "newline = [CHR 0x0A]"

definition utf8_continuation :: "char \<Rightarrow> bool" where
  "utf8_continuation c \<longleftrightarrow> 128 \<le> (of_char c :: nat) \<and> (of_char c :: nat) < 192"

definition py_len :: "string \<Rightarrow> nat" where
  "py_len s = length (filter (\<lambda>c. \<not> utf8_continuation c) s)"

definition digit_char :: "nat \<Rightarrow> char" where
  "digit_char d = ''0123456789'' ! d"

function str_nat :: "nat \<Rightarrow> string" where
  "str_nat n = (if n < 10 then [digit_char n] else str_nat (n div 10) @ [digit_char (n mod 10)])"
  by pat_completeness auto
termination
  by (relation "measure (\<lambda>n. n)") auto

definition str_int :: "int \<Rightarrow> string" where
  "str_int i = (if i < 0 then CHR ''-'' # str_nat (nat (- i)) else str_nat (nat i))"

text \<open>\<^verbatim>\<open>"{:,}".format(n)\<close>: the decimal digits in groups of three.\<close>

fun group3 :: "string \<Rightarrow> string" where
  "group3 (a # b # c # d # rest) = a # b # c # CHR '','' # group3 (d # rest)"
| "group3 ds = ds"

definition format_commas :: "nat \<Rightarrow> string" where
  "format_commas n = rev (group3 (rev (str_nat n)))"

text \<open>\<^verbatim>\<open>s.startswith(p)\<close> is \<open>prefix p s\<close>, \<^verbatim>\<open>p in s\<close> is \<open>sublist p s\<close>.\<close>

text \<open>\<^verbatim>\<open>s.replace(old, new)\<close> for a non-empty \<open>old\<close>: leftmost occurrences, not overlapping.\<close>

function py_replace :: "string \<Rightarrow> string \<Rightarrow> string \<Rightarrow> string" where
  "py_replace [] old new = []"
| "py_replace (c # cs) old new =
     (if old \<noteq> [] \<and> prefix old (c # cs)
      then new @ py_replace (drop (length old) (c # cs)) old new
      else c # py_replace cs old new)"
  by pat_completeness auto
termination
  by (relation "measure (\<lambda>(s, old, new). length s)") (auto simp: neq_Nil_conv)

text \<open>\<^verbatim>\<open>s.split("/")\<close>: never empty; \<open>split_slash acc s\<close> carries the current piece.\<close>

fun split_slash :: "string \<Rightarrow> string \<Rightarrow> string list" where
  "split_slash acc [] = [acc]"
| "split_slash acc (c # cs) =
     (if c = CHR ''/'' then acc # split_slash [] cs else split_slash (acc @ [c]) cs)"

subsection \<open>Discord objects\<close>

record embed_image =
  img_url :: "string option"
  img_proxy_url :: "string option"

record embed_author =
  ea_name :: string
  ea_url :: string
  ea_icon_url :: string

record embed_field =
  f_name :: string
  f_value :: string
  f_inline :: bool

record embed =
  e_type :: string
  e_colour :: "nat option"
  e_timestamp :: "int option"
  e_description :: string
  e_author :: "embed_author option"
  e_fields :: "embed_field list"
  e_image :: "embed_image option"

record member =
  mem_id :: nat
  bot :: bool

text \<open>
  A channel as the cog reads it. \<open>members = None\<close> is a channel without the attribute
  \<^verbatim>\<open>members\<close> (\<^verbatim>\<open>hasattr\<close> is false), \<open>member_count = None\<close> one without
  \<^verbatim>\<open>member_count\<close> (reading it raises \<^verbatim>\<open>AttributeError\<close>).
  \<open>manage_messages\<close> is \<^verbatim>\<open>channel.permissions_for(guild.me).manage_messages\<close>.
\<close>

record channel =
  c_id :: nat
  c_name :: string
  c_type_name :: string
  c_mention :: string
  members :: "member list option"
  member_count :: "nat option"
  can_send :: bool
  manage_messages :: bool

text \<open>\<open>g_member_count = None\<close>: the guild reports no member count (\<^verbatim>\<open>None * 0.1\<close> raises).\<close>

record guild =
  g_member_count :: "nat option"
  text_channels :: "channel list"
  filesize_limit :: nat

record reaction =
  emoji :: string
  count :: nat

record attachment =
  a_id :: nat
  filename :: string
  url :: string
  content_type :: "string option"
  is_spoiler :: bool

record user =
  u_id :: nat
  display_name :: string
  u_mention :: string
  display_avatar_url :: string

record message_reference =
  ref_channel_id :: nat
  ref_message_id :: nat

record message =
  m_id :: nat
  author :: user
  content :: string
  created_at :: int
  edited_at :: "int option"
  jump_url :: string
  reference :: "message_reference option"
  reactions :: "reaction list"
  attachments :: "attachment list"
  embeds :: "embed list"
  m_channel :: channel
  m_guild :: guild

subsection \<open>What lies outside the repository\<close>

record response =
  status_code :: nat
  r_content :: string

text \<open>
  The libraries: \<^verbatim>\<open>textwrap.shorten(text, width, placeholder)\<close> (which raises
  \<^verbatim>\<open>ValueError\<close> when the placeholder does not fit), \<^verbatim>\<open>urlparse(url).path\<close>,
  \<^verbatim>\<open>session.get(url)\<close>, and the answer of the Discord library to the test
  \<^verbatim>\<open>embed.image is discord.Embed.Empty\<close> of line 109, given the image of the embed.
  That answer is the library's and not the cog's: where the property \<^verbatim>\<open>image\<close> returns
  a fresh proxy object on every read, as in py-cord 2, the test is never true and line 110
  never runs.
\<close>

record pylib =
  shorten :: "string \<Rightarrow> int \<Rightarrow> string \<Rightarrow> error + string"
  urlparse_path :: "string \<Rightarrow> string"
  session_get :: "string \<Rightarrow> error + response"
  image_is_Empty :: "embed_image option \<Rightarrow> bool"

text \<open>
  The bot's view of Discord while one event is handled.
  \<open>fetch_message c i\<close> is \<^verbatim>\<open>bot.get_channel(c).fetch_message(i)\<close> (an unknown
  channel is \<^verbatim>\<open>None\<close>, and the call raises \<^verbatim>\<open>AttributeError\<close>);
  \<open>send c es\<close> is \<^verbatim>\<open>channel.send(embeds=es)\<close>; \<open>edit m es\<close>,
  \<open>remove_reaction\<close> and \<open>reply\<close> say whether the call raises.
\<close>

record env =
  intents_members :: bool
  fetch_message :: "nat \<Rightarrow> nat \<Rightarrow> error + message"
  send :: "nat \<Rightarrow> embed list \<Rightarrow> error + message"
  edit :: "message \<Rightarrow> embed list \<Rightarrow> error option"
  remove_reaction :: "message \<Rightarrow> error option"
  reply :: "message \<Rightarrow> string \<Rightarrow> error option"

subsection \<open>The image archiver (lines 21--50)\<close>

text \<open>Lines 40--43: the guild's limit, where a reported 8 MiB stands for 25 MiB.\<close>

definition FS_LIMIT :: "message \<Rightarrow> nat" where
  "FS_LIMIT starboard_message =
     (let l = filesize_limit (m_guild starboard_message)
      in if l = 8 * 1024 * 1024 then 25 * 1024 * 1024 else l)"

text \<open>
  Lines 32--38: the image is fetched from its URL; on \<^verbatim>\<open>httpx.HTTPError\<close> from the
  proxy URL when there is one, and otherwise the coroutine returns (\<open>Inr None\<close>).
\<close>

definition fetch_image :: "pylib \<Rightarrow> embed_image \<Rightarrow> string \<Rightarrow> error + response option" where
  "fetch_image lib img u =
     (case session_get lib u of
        Inr r \<Rightarrow> Inr (Some r)
      | Inl e \<Rightarrow>
          if e = HTTPError then
            (case img_proxy_url img of
               None \<Rightarrow> Inr None
             | Some p \<Rightarrow>
                 if p = [] then Inr None
                 else (case session_get lib p of Inl e' \<Rightarrow> Inl e' | Inr r \<Rightarrow> Inr (Some r)))
          else Inl e)"

text \<open>The request \<^verbatim>\<open>starboard_message.edit(embeds=embeds, file=File(file, filename))\<close>.\<close>

record archive_edit =
  ae_embeds :: "embed list"
  ae_filename :: string
  ae_file :: string

text \<open>
  \<open>Inr None\<close>: the coroutine ends without editing the mirror; \<open>Inr (Some ed)\<close>: it edits
  the mirror with \<open>ed\<close>; \<open>Inl e\<close>: it raises before.
\<close>

definition archive_image :: "pylib \<Rightarrow> message \<Rightarrow> error + archive_edit option" where
  "archive_image lib starboard_message =
     (case embeds starboard_message of
        [] \<Rightarrow> Inl IndexError
      | e0 # rest \<Rightarrow>
          (case e_image e0 of
             None \<Rightarrow> Inr None
           | Some img \<Rightarrow>
               (case img_url img of
                  None \<Rightarrow> Inr None
                | Some u \<Rightarrow>
                    if u = [] then Inr None
                    else
                      (let fname = last (split_slash [] (urlparse_path lib u))
                       in case fetch_image lib img u of
                            Inl e \<Rightarrow> Inl e
                          | Inr None \<Rightarrow> Inr None
                          | Inr (Some r) \<Rightarrow>
                              if status_code r = 200
                                 \<and> length (r_content r) < FS_LIMIT starboard_message
                              then Inr (Some \<lparr>ae_embeds =
                                       e0\<lparr>e_image := Some \<lparr>img_url = Some (''attachment://'' @ fname),
                                                            img_proxy_url = None\<rparr>\<rparr> # rest,
                                     ae_filename = fname,
                                     ae_file = r_content r\<rparr>)
                              else Inr None))))"

subsection \<open>The renderer (lines 52--114)\<close>

text \<open>Lines 53--57 and 131--135: the count of the first star reaction, 0 without one.\<close>

definition star_count_of :: "message \<Rightarrow> nat" where
  "star_count_of m =
     (case filter (\<lambda>x. emoji x = white_medium_star) (reactions m) of
        [] \<Rightarrow> 0
      | x # _ \<Rightarrow> count x)"

text \<open>Line 59: the renderer's own cap; it is computed and never used.\<close>

definition embed_cap :: "message \<Rightarrow> error + rat" where
  "embed_cap m =
     (if sublist ''thread'' (c_type_name (m_channel m))
      then (case member_count (m_channel m) of
              None \<Rightarrow> Inl AttributeError
            | Some n \<Rightarrow> Inr (of_nat n / 10))
      else (case g_member_count (m_guild m) of
              None \<Rightarrow> Inl TypeError
            | Some n \<Rightarrow> Inr (of_nat n / 10)))"

text \<open>\<^verbatim>\<open>discord.utils.format_dt(dt, 'R')\<close>, the time being its integer timestamp.\<close>

definition format_dt_R :: "int \<Rightarrow> string" where
  "format_dt_R t = ''<t:'' @ str_int t @ '':R>''"

text \<open>Lines 65--69.\<close>

definition stars_text :: "nat \<Rightarrow> string" where
  "stars_text star_count =
     (if star_count > 5 then white_medium_star @ ''x'' @ format_commas star_count
      else (let stars = concat (replicate star_count white_medium_star)
            in if stars = [] then no_entry_sign else stars))"

text \<open>Lines 71--81: the field named Info.\<close>

definition info_field :: "message \<Rightarrow> embed_field" where
  "info_field m =
     \<lparr>f_name = ''Info'',
      f_value =
        ''Star count: '' @ stars_text (star_count_of m) @ newline
        @ ''Channel: '' @ c_mention (m_channel m) @ newline
        @ ''Author: '' @ u_mention (author m) @ newline
        @ ''URL: [jump]('' @ jump_url m @ '')'' @ newline
        @ ''Sent: '' @ format_dt_R (created_at m)
        @ (case edited_at m of
             None \<Rightarrow> []
           | Some t \<Rightarrow> newline @ ''Last edited: '' @ format_dt_R t),
      f_inline = False\<rparr>"

text \<open>Lines 91--100: the field quoting the message replied to.\<close>

definition reply_field :: "pylib \<Rightarrow> message \<Rightarrow> error + embed_field" where
  "reply_field lib ref =
     (let v = ''[Message by '' @ display_name (author ref) @ '']('' @ jump_url ref @ ''):''
              @ newline @ ''>>> ''
      in if content ref = []
         then Inr \<lparr>f_name = ''In reply to'',
                   f_value = py_replace v ('':'' @ newline @ ''>>> '') [],
                   f_inline = False\<rparr>
         else (case shorten lib (content ref) (1024 - int (py_len v)) ''...'' of
                 Inl e \<Rightarrow> Inl e
               | Inr t \<Rightarrow> Inr \<lparr>f_name = ''In reply to'', f_value = v @ t, f_inline = False\<rparr>))"

text \<open>Lines 83--100: a reference that cannot be fetched adds no field.\<close>

definition add_reply :: "pylib \<Rightarrow> env \<Rightarrow> message \<Rightarrow> embed \<Rightarrow> error + embed" where
  "add_reply lib env m e =
     (case reference m of
        None \<Rightarrow> Inr e
      | Some r \<Rightarrow>
          (case fetch_message env (ref_channel_id r) (ref_message_id r) of
             Inl err \<Rightarrow> if is_HTTPException err then Inr e else Inl err
           | Inr ref \<Rightarrow>
               (case reply_field lib ref of
                  Inl err \<Rightarrow> Inl err
                | Inr f \<Rightarrow> Inr (e\<lparr>e_fields := e_fields e @ [f]\<rparr>))))"

text \<open>\<^verbatim>\<open>message.attachments.index(file)\<close>; attachments are equal when their ids are.\<close>

fun index_of :: "attachment list \<Rightarrow> nat \<Rightarrow> nat" where
  "index_of [] i = 0"
| "index_of (a # as) i = (if a_id a = i then 0 else Suc (index_of as i))"

text \<open>
  Lines 102--111: the loop over the attachments, \<open>all\<close> being the whole list. The test
  \<^verbatim>\<open>embed.image is discord.Embed.Empty\<close> is answered by the library; a
  \<^verbatim>\<open>content_type\<close> of \<^verbatim>\<open>None\<close> has no \<^verbatim>\<open>startswith\<close>.
\<close>

fun add_attachments ::
  "pylib \<Rightarrow> attachment list \<Rightarrow> attachment list \<Rightarrow> embed \<Rightarrow> error + embed" where
  "add_attachments lib all [] e = Inr e"
| "add_attachments lib all (file # files) e =
     (let name = ''Attachment #'' @ str_nat (index_of all (a_id file))
      in if is_spoiler file
         then add_attachments lib all files
                (e\<lparr>e_fields := e_fields e
                     @ [\<lparr>f_name = name,
                         f_value = ''||['' @ filename file @ '']('' @ url file @ '')||'',
                         f_inline = False\<rparr>]\<rparr>)
         else (case content_type file of
                 None \<Rightarrow> Inl AttributeError
               | Some ct \<Rightarrow>
                   (let e1 = (if prefix ''image'' ct \<and> image_is_Empty lib (e_image e)
                              then e\<lparr>e_image := Some \<lparr>img_url = Some (url file),
                                                     img_proxy_url = None\<rparr>\<rparr>
                              else e)
                    in add_attachments lib all files
                         (e1\<lparr>e_fields := e_fields e1
                               @ [\<lparr>f_name = name,
                                   f_value = ''['' @ filename file @ '']('' @ url file @ '')'',
                                   f_inline = False\<rparr>]\<rparr>))))"

definition gold :: nat where
  "gold = 0xF1C40F"

definition generate_starboard_embed :: "pylib \<Rightarrow> env \<Rightarrow> message \<Rightarrow> error + embed" where
  "generate_starboard_embed lib env m =
     (case embed_cap m of
        Inl err \<Rightarrow> Inl err
      | Inr cap \<Rightarrow>
          (let e = \<lparr>e_type = ''rich'',
                    e_colour = Some gold,
                    e_timestamp = Some (created_at m),
                    e_description = content m,
                    e_author = Some \<lparr>ea_name = display_name (author m),
                                     ea_url = jump_url m,
                                     ea_icon_url = display_avatar_url (author m)\<rparr>,
                    e_fields = [info_field m],
                    e_image = None\<rparr>
           in case add_reply lib env m e of
                Inl err \<Rightarrow> Inl err
              | Inr e1 \<Rightarrow> add_attachments lib (attachments m) (attachments m) e1))"

subsection \<open>The mirror store\<close>

text \<open>
  Modelled from the spec: the model class \<^verbatim>\<open>StarBoardMessage\<close> of
  \<^verbatim>\<open>utils/db.py\<close> is not among the sources. A row has the three fields the cog reads and
  writes: \<^verbatim>\<open>id\<close> (the source message), \<^verbatim>\<open>channel\<close> (its channel) and
  \<^verbatim>\<open>starboard_message\<close> (the mirror, null until one is posted).
\<close>

record StarBoardMessage =
  sb_id :: nat
  sb_channel :: nat
  starboard_message :: "nat option"

type_synonym store = "StarBoardMessage list"

text \<open>
  Modelled from the spec: \<^verbatim>\<open>StarBoardMessage.objects.get(id=i)\<close>, the
  \<^verbatim>\<open>get(source_message_id) -> record | not-found\<close> of the Mirror Store. The table is
  the list of its rows; as in the orm library, more than one matching row is an error.
\<close>

definition objects_get :: "store \<Rightarrow> nat \<Rightarrow> error + StarBoardMessage" where
  "objects_get st i =
     (case filter (\<lambda>r. sb_id r = i) st of
        [] \<Rightarrow> Inl NoMatch
      | [r] \<Rightarrow> Inr r
      | _ \<Rightarrow> Inl MultipleMatches)"

text \<open>
  Modelled from the spec: \<^verbatim>\<open>StarBoardMessage.objects.get_or_create({"channel": c}, id=i)\<close>,
  the \<^verbatim>\<open>get_or_create(source_message_id, source_channel_id) -> (record, created)\<close>
  of the Mirror Store: "atomic upsert; if absent, inserts with mirror_message_id = null".
\<close>

definition objects_get_or_create ::
  "store \<Rightarrow> nat \<Rightarrow> nat \<Rightarrow> error + ((StarBoardMessage \<times> bool) \<times> store)" where
  "objects_get_or_create st c i =
     (case objects_get st i of
        Inr r \<Rightarrow> Inr ((r, False), st)
      | Inl e \<Rightarrow>
          if e = NoMatch
          then (let r = \<lparr>sb_id = i, sb_channel = c, starboard_message = None\<rparr>
                in Inr ((r, True), st @ [r]))
          else Inl e)"

text \<open>
  Modelled from the spec: \<^verbatim>\<open>entry.update(starboard_message=x)\<close>, the
  \<^verbatim>\<open>set_mirror_message(source_message_id, mirror_message_id)\<close> of the Mirror Store.
\<close>

definition entry_update :: "store \<Rightarrow> StarBoardMessage \<Rightarrow> nat \<Rightarrow> store" where
  "entry_update st entry x =
     map (\<lambda>r. if sb_id r = sb_id entry then r\<lparr>starboard_message := Some x\<rparr> else r) st"

text \<open>
  Modelled from the spec: \<^verbatim>\<open>entry.delete()\<close>, the \<^verbatim>\<open>delete(source_message_id)\<close>
  of the Mirror Store.
\<close>

definition entry_delete :: "store \<Rightarrow> StarBoardMessage \<Rightarrow> store" where
  "entry_delete st entry = filter (\<lambda>r. sb_id r \<noteq> sb_id entry) st"

subsection \<open>The listener (lines 116--192)\<close>

datatype event_type = REACTION_ADD | REACTION_REMOVE

record payload =
  guild_id :: "nat option"
  channel_id :: nat
  message_id :: nat
  user_id :: nat
  p_emoji :: string
  p_event_type :: event_type

text \<open>
  What the listener asks Discord to do, in the order of the calls that succeeded. A
  deletion with a delay is handed to a background task and raises nothing here.
\<close>

datatype action =
    RemoveReaction message        \<comment> \<open>\<^verbatim>\<open>message.remove_reaction(payload.emoji, message.author)\<close>\<close>
  | Reply message string          \<comment> \<open>\<^verbatim>\<open>message.reply(text)\<close>\<close>
  | Delete message                \<comment> \<open>\<^verbatim>\<open>message.delete(delay=0.1, ...)\<close>\<close>
  | Send nat "embed list"         \<comment> \<open>\<^verbatim>\<open>channel.send(embeds=embeds)\<close>, with the channel's id\<close>
  | Edit message "embed list"     \<comment> \<open>\<^verbatim>\<open>msg.edit(embeds=embeds)\<close>\<close>
  | ArchiveImage message          \<comment> \<open>\<^verbatim>\<open>bot.loop.create_task(self.archive_image(msg))\<close>\<close>

text \<open>
  The end of one run: \<open>None\<close> when the coroutine returned, \<open>Some e\<close> when \<open>e\<close>
  propagated to the event source; the store and the actions as they were at that point.
\<close>

type_synonym result = "error option \<times> store \<times> action list"

text \<open>\<^verbatim>\<open>discord.utils.get(channels, name=n)\<close>: the first channel of that name.\<close>

definition utils_get :: "channel list \<Rightarrow> string \<Rightarrow> channel option" where
  "utils_get cs n = find (\<lambda>c. c_name c = n) cs"

text \<open>Lines 161--165: the cap of the synchronizer, from the channel of the message.\<close>

definition threshold_cap :: "env \<Rightarrow> channel \<Rightarrow> error + rat" where
  "threshold_cap env cap =
     (case (if intents_members env then members cap else None) of
        Some ms \<Rightarrow> Inr (of_nat (length (filter (\<lambda>x. \<not> bot x) ms)) / 10)
      | None \<Rightarrow>
          (case member_count cap of
             None \<Rightarrow> Inl AttributeError
           | Some n \<Rightarrow> Inr (of_nat n / 10)))"

text \<open>Lines 169--170 and 179--180: the embeds of the mirror.\<close>

definition mirror_embeds :: "pylib \<Rightarrow> env \<Rightarrow> message \<Rightarrow> error + embed list" where
  "mirror_embeds lib env message =
     (case generate_starboard_embed lib env message of
        Inl e \<Rightarrow> Inl e
      | Inr emb \<Rightarrow> Inr (take 10 (emb # filter (\<lambda>x. e_type x = ''rich'') (embeds message))))"

text \<open>Lines 171--173 and 185--187: post, store the mirror's id, schedule the archiver.\<close>

definition post_mirror ::
  "env \<Rightarrow> channel \<Rightarrow> embed list \<Rightarrow> StarBoardMessage \<Rightarrow> store \<Rightarrow> action list \<Rightarrow> result" where
  "post_mirror env channel es entry st acts =
     (case send env (c_id channel) es of
        Inl e \<Rightarrow> (Some e, st, acts)
      | Inr msg \<Rightarrow>
          (None, entry_update st entry (m_id msg),
           acts @ [Send (c_id channel) es, ArchiveImage msg]))"

text \<open>Lines 159--176: the record was just created.\<close>

definition on_created ::
  "pylib \<Rightarrow> env \<Rightarrow> message \<Rightarrow> nat \<Rightarrow> StarBoardMessage \<Rightarrow> store \<Rightarrow> action list \<Rightarrow> result" where
  "on_created lib env message star_count entry st acts =
     (case threshold_cap env (m_channel message) of
        Inl e \<Rightarrow> (Some e, st, acts)
      | Inr cap \<Rightarrow>
          if of_nat star_count \<ge> cap then
            (case utils_get (text_channels (m_guild message)) ''starboard'' of
               None \<Rightarrow> (None, st, acts)
             | Some channel \<Rightarrow>
                 if can_send channel then
                   (case mirror_embeds lib env message of
                      Inl e \<Rightarrow> (Some e, st, acts)
                    | Inr es \<Rightarrow> post_mirror env channel es entry st acts)
                 else (None, st, acts))
          else (None, entry_delete st entry, acts))"

text \<open>Lines 177--192: the record was there before.\<close>

definition on_existing ::
  "pylib \<Rightarrow> env \<Rightarrow> message \<Rightarrow> StarBoardMessage \<Rightarrow> store \<Rightarrow> action list \<Rightarrow> result" where
  "on_existing lib env message entry st acts =
     (let channel = utils_get (text_channels (m_guild message)) ''starboard''
      in case mirror_embeds lib env message of
           Inl e \<Rightarrow> (Some e, st, acts)
         | Inr es \<Rightarrow>
             (case channel of
                None \<Rightarrow> (None, st, acts)
              | Some ch \<Rightarrow>
                  if \<not> can_send ch then (None, st, acts)
                  else
                    (case starboard_message entry of
                       None \<Rightarrow> (None, st, acts)
                     | Some mid \<Rightarrow>
                         if mid = 0 then (None, st, acts)
                         else
                           (case fetch_message env (c_id ch) mid of
                              Inl e \<Rightarrow>
                                if e = NotFound then post_mirror env ch es entry st acts
                                else if is_HTTPException e then (None, st, acts)
                                else (Some e, st, acts)
                            | Inr msg \<Rightarrow>
                                (case edit env msg es of
                                   Some e \<Rightarrow> (Some e, st, acts)
                                 | None \<Rightarrow>
                                     (None, st, acts @ [Edit msg es, ArchiveImage msg]))))))"

text \<open>Lines 155--192, reached with the message, the tally and the store of that moment.\<close>

definition synchronise ::
  "pylib \<Rightarrow> env \<Rightarrow> payload \<Rightarrow> message \<Rightarrow> nat \<Rightarrow> store \<Rightarrow> action list \<Rightarrow> result" where
  "synchronise lib env p message star_count st acts =
     (case objects_get_or_create st (channel_id p) (message_id p) of
        Inl e \<Rightarrow> (Some e, st, acts)
      | Inr ((entry, created), st1) \<Rightarrow>
          if created then on_created lib env message star_count entry st1 acts
          else on_existing lib env message entry st1 acts)"

text \<open>
  Lines 137--153: the message has no star left. Without a record the listener returns.
  With one it looks in the starboard channel for the message whose id is
  \<^verbatim>\<open>database.id\<close>, deletes what it finds, deletes the record, and goes on to line 155
  (nothing returns here); a message it found is from then on \<^verbatim>\<open>message\<close>.
\<close>

definition lost_all_stars ::
  "pylib \<Rightarrow> env \<Rightarrow> payload \<Rightarrow> message \<Rightarrow> nat \<Rightarrow> store \<Rightarrow> result" where
  "lost_all_stars lib env p message star_count st =
     (case objects_get st (message_id p) of
        Inl e \<Rightarrow> if e = NoMatch then (None, st, []) else (Some e, st, [])
      | Inr database \<Rightarrow>
          (case utils_get (text_channels (m_guild message)) ''starboard'' of
             None \<Rightarrow> synchronise lib env p message star_count (entry_delete st database) []
           | Some channel \<Rightarrow>
               (case fetch_message env (c_id channel) (sb_id database) of
                  Inr found \<Rightarrow>
                    synchronise lib env p found star_count (entry_delete st database)
                      [Delete found]
                | Inl e \<Rightarrow>
                    if is_HTTPException e
                    then synchronise lib env p message star_count (entry_delete st database) []
                    else (Some e, entry_delete st database, []))))"

text \<open>Lines 125--130: the author starred their own message.\<close>

definition self_star_text :: "message \<Rightarrow> string" where
  "self_star_text message =
     ''You can'' @ [CHR 0x27] @ ''t star your own messages you pretentious dick, ''
     @ u_mention (author message) @ ''.''"

definition self_star :: "env \<Rightarrow> message \<Rightarrow> store \<Rightarrow> result" where
  "self_star env message st =
     (case (if manage_messages (m_channel message) then remove_reaction env message else None) of
        Some e \<Rightarrow> (Some e, st, [])
      | None \<Rightarrow>
          (let acts = (if manage_messages (m_channel message) then [RemoveReaction message] else [])
           in case reply env message (self_star_text message) of
                Some e \<Rightarrow> (Some e, st, acts)
              | None \<Rightarrow> (None, st, acts @ [Reply message (self_star_text message)])))"

definition falsy_id :: "nat option \<Rightarrow> bool" where
  "falsy_id g = (case g of None \<Rightarrow> True | Some n \<Rightarrow> n = 0)"

definition on_star_add :: "pylib \<Rightarrow> env \<Rightarrow> payload \<Rightarrow> store \<Rightarrow> result" where
  "on_star_add lib env p st =
     (if falsy_id (guild_id p) then (None, st, [])
      else if p_emoji p \<noteq> white_medium_star then (None, st, [])
      else
        (case fetch_message env (channel_id p) (message_id p) of
           Inl e \<Rightarrow> (Some e, st, [])
         | Inr message \<Rightarrow>
             if u_id (author message) = user_id p \<and> p_event_type p = REACTION_ADD
             then self_star env message st
             else
               (let star_count = star_count_of message
                in if star_count = 0 then lost_all_stars lib env p message star_count st
                   else synchronise lib env p message star_count st [])))"

text \<open>A sequence of events, each with the Discord of its moment; the stores after each.\<close>

fun run_events :: "pylib \<Rightarrow> (env \<times> payload) list \<Rightarrow> store \<Rightarrow> store list" where
  "run_events lib [] st = []"
| "run_events lib ((env, p) # evs) st =
     (let st' = fst (snd (on_star_add lib env p st)) in st' # run_events lib evs st')"

subsection \<open>Reading the actions\<close>

text \<open>The actions that touch the starboard channel, and the embeds of a post or an edit.\<close>

fun mirror_action :: "action \<Rightarrow> bool" where
  "mirror_action (Send c es) = True"
| "mirror_action (Edit m es) = True"
| "mirror_action (Delete m) = True"
| "mirror_action (ArchiveImage m) = True"
| "mirror_action (RemoveReaction m) = False"
| "mirror_action (Reply m t) = False"

fun sent_embeds :: "action \<Rightarrow> embed list option" where
  "sent_embeds (Send c es) = Some es"
| "sent_embeds (Edit m es) = Some es"
| "sent_embeds (Delete m) = None"
| "sent_embeds (ArchiveImage m) = None"
| "sent_embeds (RemoveReaction m) = None"
| "sent_embeds (Reply m t) = None"

subsection \<open>The cap in the words of the specification\<close>

text \<open>
  The ThresholdCap as the specification words it, to be compared with \<open>threshold_cap\<close>:
  0.1 times the eligible member count, which is the thread's members when the channel is a
  thread and the guild's member count otherwise, the reported member count standing in
  when the member list is not available; a population that reports 0 counts as 1, and the
  cap is at least 0.
\<close>

definition spec_population :: "env \<Rightarrow> channel \<Rightarrow> guild \<Rightarrow> nat" where
  "spec_population env ch g =
     (let reported =
            (if sublist ''thread'' (c_type_name ch)
             then (case (if intents_members env then members ch else None) of
                     Some ms \<Rightarrow> length ms
                   | None \<Rightarrow> (case member_count ch of Some n \<Rightarrow> n | None \<Rightarrow> 0))
             else (case g_member_count g of Some n \<Rightarrow> n | None \<Rightarrow> 0))
      in if reported = 0 then 1 else reported)"

definition spec_threshold_cap :: "env \<Rightarrow> channel \<Rightarrow> guild \<Rightarrow> rat" where
  "spec_threshold_cap env ch g = max 0 (of_nat (spec_population env ch g) / 10)"

subsection \<open>The upload limit in the words of the specification\<close>

text \<open>
  The effective upload limit as the specification words it, to be compared with
  \<open>FS_LIMIT\<close>: the limit the guild reports, quadrupled when the guild reports the base
  of the smallest tier, 8 MiB.
\<close>

definition spec_upload_limit :: "nat \<Rightarrow> nat" where
  "spec_upload_limit reported =
     (if reported = 8 * 1024 * 1024 then 4 * reported else reported)"

subsection \<open>Sample inputs\<close>

text \<open>
  A guild with \<open>n\<close> people and the bot, a channel \<^verbatim>\<open>#general\<close> that all of them see, a
  channel \<^verbatim>\<open>#starboard\<close>, and a thread nobody has joined.
\<close>

definition humans :: "nat \<Rightarrow> member list" where
  "humans n = map (\<lambda>i. \<lparr>mem_id = i, bot = False\<rparr>) [0..<n]"

definition general :: "nat \<Rightarrow> channel" where
  "general n =
     \<lparr>c_id = 10, c_name = ''general'', c_type_name = ''text'', c_mention = ''<#10>'',
      members = Some (\<lparr>mem_id = 99, bot = True\<rparr> # humans n), member_count = None,
      can_send = True, manage_messages = True\<rparr>"

definition starboard :: channel where
  "starboard =
     \<lparr>c_id = 20, c_name = ''starboard'', c_type_name = ''text'', c_mention = ''<#20>'',
      members = Some [], member_count = None, can_send = True, manage_messages = True\<rparr>"

definition quiet_thread :: channel where
  "quiet_thread =
     \<lparr>c_id = 30, c_name = ''help'', c_type_name = ''public_thread'', c_mention = ''<#30>'',
      members = Some [], member_count = Some 0, can_send = True, manage_messages = True\<rparr>"

definition lcc :: "nat \<Rightarrow> guild" where
  "lcc n =
     \<lparr>g_member_count = Some (n + 1), text_channels = [general n, starboard],
      filesize_limit = 8 * 1024 * 1024\<rparr>"

definition alice :: user where
  "alice = \<lparr>u_id = 1, display_name = ''alice'', u_mention = ''<@1>'',
            display_avatar_url = ''a.png''\<rparr>"

definition plain :: embed where
  "plain = \<lparr>e_type = ''rich'', e_colour = None, e_timestamp = None, e_description = ''note'',
            e_author = None, e_fields = [], e_image = None\<rparr>"

definition preview :: embed where
  "preview = \<lparr>e_type = ''link'', e_colour = None, e_timestamp = None, e_description = ''site'',
              e_author = None, e_fields = [], e_image = None\<rparr>"

definition pictured :: embed where
  "pictured = \<lparr>e_type = ''rich'', e_colour = None, e_timestamp = None, e_description = ''cat'',
               e_author = None, e_fields = [],
               e_image = Some \<lparr>img_url = Some ''https://h/a/cat.png'', img_proxy_url = None\<rparr>\<rparr>"

text \<open>The source message, in \<^verbatim>\<open>#general\<close> of a guild of \<open>n\<close> people, with \<open>k\<close> stars.\<close>

definition source :: "nat \<Rightarrow> nat \<Rightarrow> message" where
  "source n k =
     \<lparr>m_id = 100, author = alice, content = ''hello'', created_at = 1700, edited_at = None,
      jump_url = ''u'', reference = None,
      reactions = (if k = 0 then [] else [\<lparr>emoji = white_medium_star, count = k\<rparr>]),
      attachments = [], embeds = [preview, plain],
      m_channel = general n, m_guild = lcc n\<rparr>"

text \<open>What the renderer makes of the source message.\<close>

definition rendered :: "nat \<Rightarrow> nat \<Rightarrow> embed" where
  "rendered n k =
     \<lparr>e_type = ''rich'', e_colour = Some gold, e_timestamp = Some 1700,
      e_description = ''hello'',
      e_author = Some \<lparr>ea_name = ''alice'', ea_url = ''u'', ea_icon_url = ''a.png''\<rparr>,
      e_fields = [info_field (source n k)], e_image = None\<rparr>"

text \<open>A message of the bot in \<^verbatim>\<open>#starboard\<close>, with id \<open>i\<close> and the embeds \<open>es\<close>.\<close>

definition mirror :: "nat \<Rightarrow> nat \<Rightarrow> embed list \<Rightarrow> message" where
  "mirror n i es =
     \<lparr>m_id = i, author = alice\<lparr>u_id := 99\<rparr>, content = [], created_at = 1800,
      edited_at = None, jump_url = ''v'', reference = None, reactions = [], attachments = [],
      embeds = es, m_channel = starboard, m_guild = lcc n\<rparr>"

text \<open>
  A library whose HTTP client answers 200 with a payload of \<open>sz\<close> bytes, and for which
  the image of an embed is never \<^verbatim>\<open>Embed.Empty\<close>.
\<close>

definition sample_lib :: "nat \<Rightarrow> pylib" where
  "sample_lib sz =
     \<lparr>shorten = (\<lambda>t w ph. if w < int (length ph) then Inl ValueError
                           else if int (length t) \<le> w then Inr t
                           else Inr (take (nat w - length ph) t @ ph)),
      urlparse_path = (\<lambda>u. if u = ''https://h/a/cat.png'' then ''/a/cat.png'' else []),
      session_get = (\<lambda>u. Inr \<lparr>status_code = 200, r_content = replicate sz (CHR ''x'')\<rparr>),
      image_is_Empty = (\<lambda>i. False)\<rparr>"

text \<open>
  Discord with the source message (id 100 in channel 10); \<open>old\<close> is what fetching message
  200 from \<^verbatim>\<open>#starboard\<close> gives, \<open>ed\<close> what editing a message raises; a post gets id 300.
\<close>

definition discord :: "nat \<Rightarrow> nat \<Rightarrow> error + message \<Rightarrow> error option \<Rightarrow> env" where
  "discord n k old ed =
     \<lparr>intents_members = True,
      fetch_message = (\<lambda>c i. if c = 10 \<and> i = 100 then Inr (source n k)
                              else if c = 20 \<and> i = 200 then old
                              else Inl NotFound),
      send = (\<lambda>c es. Inr (mirror n 300 es)),
      edit = (\<lambda>m es. ed),
      remove_reaction = (\<lambda>m. None),
      reply = (\<lambda>m t. None)\<rparr>"

text \<open>The same message and the same Discord in a guild without a starboard channel.\<close>

definition boardless :: "nat \<Rightarrow> nat \<Rightarrow> message" where
  "boardless n k = (source n k)\<lparr>m_guild := (lcc n)\<lparr>text_channels := [general n]\<rparr>\<rparr>"

definition discord_boardless :: "nat \<Rightarrow> nat \<Rightarrow> env" where
  "discord_boardless n k =
     (discord n k (Inl NotFound) None)
       \<lparr>fetch_message := (\<lambda>c i. if c = 10 \<and> i = 100 then Inr (boardless n k)
                                 else Inl NotFound)\<rparr>"

definition star_event :: "nat \<Rightarrow> event_type \<Rightarrow> payload" where
  "star_event u t =
     \<lparr>guild_id = Some 1, channel_id = 10, message_id = 100, user_id = u,
      p_emoji = white_medium_star, p_event_type = t\<rparr>"

definition tracked :: "nat option \<Rightarrow> StarBoardMessage" where
  "tracked x = \<lparr>sb_id = 100, sb_channel = 10, starboard_message = x\<rparr>"

section \<open>Properties\<close>

subsection \<open>Evaluation and the store\<close>

lemma humans_count: "length (filter (\<lambda>x. \<not> bot x) (humans n)) = n"
  by (simp add: humans_def filter_map comp_def)

lemma objects_get_Inr:
  "objects_get st i = Inr r \<Longrightarrow> sb_id r = i \<and> r \<in> set st"
proof -
  assume a: "objects_get st i = Inr r"
  then have "filter (\<lambda>r. sb_id r = i) st = [r]"
    by (auto simp: objects_get_def split: list.splits)
  then have "r \<in> set (filter (\<lambda>r. sb_id r = i) st)" by simp
  then show ?thesis by simp
qed

lemma objects_get_NoMatch:
  "objects_get st i = Inl NoMatch \<longleftrightarrow> filter (\<lambda>r. sb_id r = i) st = []"
  by (auto simp: objects_get_def split: list.splits)

lemma get_or_create_existing:
  "objects_get st i = Inr r \<Longrightarrow> objects_get_or_create st c i = Inr ((r, False), st)"
  by (simp add: objects_get_or_create_def)

lemma get_or_create_absent:
  "objects_get st i = Inl NoMatch \<Longrightarrow>
   objects_get_or_create st c i =
     Inr ((\<lparr>sb_id = i, sb_channel = c, starboard_message = None\<rparr>, True),
          st @ [\<lparr>sb_id = i, sb_channel = c, starboard_message = None\<rparr>])"
  by (simp add: objects_get_or_create_def Let_def)

subsection \<open>Starring one's own message\<close>

text \<open>
  Claim C4. When the user who added the reaction is the author of the message, the store
  after the run is the store before it, and neither the outcome nor the actions depend on
  the store: no operation of the store is reached. For a star in a guild, when Discord
  raises nothing, the listener retracts the reaction if it may manage messages, replies to
  the author, and returns.
\<close>

theorem self_star_never_reaches_store:
  assumes "fetch_message env (channel_id p) (message_id p) = Inr m"
    and "u_id (author m) = user_id p"
    and "p_event_type p = REACTION_ADD"
  shows "fst (snd (on_star_add lib env p st)) = st
       \<and> fst (on_star_add lib env p st) = fst (on_star_add lib env p st')
       \<and> snd (snd (on_star_add lib env p st)) = snd (snd (on_star_add lib env p st'))
       \<and> (\<not> falsy_id (guild_id p) \<and> p_emoji p = white_medium_star
            \<and> remove_reaction env m = None \<and> reply env m (self_star_text m) = None
          \<longrightarrow> on_star_add lib env p st =
                (None, st,
                 (if manage_messages (m_channel m) then [RemoveReaction m] else [])
                 @ [Reply m (self_star_text m)]))"
  using assms
  by (auto simp: on_star_add_def self_star_def Let_def split: option.splits)

text \<open>The theorem for the author, user 1, starring message 100 while it is tracked.\<close>

theorem self_star_never_reaches_store_witness:
  "fetch_message (discord 2 1 (Inl NotFound) None) 10 100 = Inr (source 2 1)
   \<and> u_id (author (source 2 1)) = user_id (star_event 1 REACTION_ADD)
   \<and> on_star_add (sample_lib 0) (discord 2 1 (Inl NotFound) None) (star_event 1 REACTION_ADD)
        [tracked (Some 200)]
      = (None, [tracked (Some 200)],
         [RemoveReaction (source 2 1), Reply (source 2 1) (self_star_text (source 2 1))])"
proof -
  have f: "fetch_message (discord 2 1 (Inl NotFound) None)
             (channel_id (star_event 1 REACTION_ADD)) (message_id (star_event 1 REACTION_ADD))
           = Inr (source 2 1)"
    by (simp add: discord_def star_event_def)
  have a: "u_id (author (source 2 1)) = user_id (star_event 1 REACTION_ADD)"
    by (simp add: source_def alice_def star_event_def)
  have t: "p_event_type (star_event 1 REACTION_ADD) = REACTION_ADD"
    by (simp add: star_event_def)
  have rest: "\<not> falsy_id (guild_id (star_event 1 REACTION_ADD))
      \<and> p_emoji (star_event 1 REACTION_ADD) = white_medium_star
      \<and> remove_reaction (discord 2 1 (Inl NotFound) None) (source 2 1) = None
      \<and> reply (discord 2 1 (Inl NotFound) None) (source 2 1) (self_star_text (source 2 1)) = None
      \<and> manage_messages (m_channel (source 2 1))"
    by (simp add: star_event_def falsy_id_def discord_def source_def general_def)
  show ?thesis
    using self_star_never_reaches_store[OF f a t, of "sample_lib 0" "[tracked (Some 200)]" "[]"]
      f a rest
    by (simp add: star_event_def)
qed

subsection \<open>A record without a mirror\<close>

lemma on_existing_unposted:
  "starboard_message r = None \<Longrightarrow>
   fst (snd (on_existing lib env m r st acts)) = st \<and> snd (snd (on_existing lib env m r st acts)) = acts"
  by (simp add: on_existing_def Let_def split: sum.splits option.splits)

lemma self_star_frame:
  "fst (snd (self_star env m st)) = st \<and> filter mirror_action (snd (snd (self_star env m st))) = []"
  by (simp add: self_star_def Let_def split: option.splits)

text \<open>
  Claim C10. When the record of the message is there with no mirror id and the message has
  at least one star, the run leaves the store as it was and neither posts, edits, deletes
  nor archives anything in the starboard channel, however the tally compares with the cap;
  unless the event is the author starring their own message, it does nothing at all.
\<close>

theorem unposted_record_stays_unposted:
  assumes "fetch_message env (channel_id p) (message_id p) = Inr m"
    and "star_count_of m \<noteq> 0"
    and "objects_get st (message_id p) = Inr r"
    and "starboard_message r = None"
  shows "fst (snd (on_star_add lib env p st)) = st
       \<and> filter mirror_action (snd (snd (on_star_add lib env p st))) = []
       \<and> (\<not> (u_id (author m) = user_id p \<and> p_event_type p = REACTION_ADD)
            \<longrightarrow> snd (snd (on_star_add lib env p st)) = [])"
  using assms on_existing_unposted[of r lib env m st "[]"] self_star_frame[of env m st]
  by (simp add: on_star_add_def Let_def synchronise_def get_or_create_existing)

text \<open>
  The theorem for a message with one star in a channel of two people (cap 0.2, so the
  tally qualifies) whose record has no mirror.
\<close>

theorem unposted_record_stays_unposted_witness:
  "objects_get [tracked None] 100 = Inr (tracked None)
   \<and> star_count_of (source 2 1) = 1
   \<and> of_nat (star_count_of (source 2 1)) \<ge> (2 / 10 :: rat)
   \<and> fst (snd (on_star_add (sample_lib 0) (discord 2 1 (Inl NotFound) None)
                 (star_event 2 REACTION_ADD) [tracked None])) = [tracked None]
   \<and> snd (snd (on_star_add (sample_lib 0) (discord 2 1 (Inl NotFound) None)
                 (star_event 2 REACTION_ADD) [tracked None])) = []"
proof -
  have f: "fetch_message (discord 2 1 (Inl NotFound) None)
             (channel_id (star_event 2 REACTION_ADD)) (message_id (star_event 2 REACTION_ADD))
           = Inr (source 2 1)"
    by (simp add: discord_def star_event_def)
  have tally: "star_count_of (source 2 1) = 1"
    by (simp add: star_count_of_def source_def)
  have g: "objects_get [tracked None] (message_id (star_event 2 REACTION_ADD)) = Inr (tracked None)"
    by (simp add: objects_get_def tracked_def star_event_def)
  have n: "starboard_message (tracked None) = None"
    by (simp add: tracked_def)
  have a: "u_id (author (source 2 1)) \<noteq> user_id (star_event 2 REACTION_ADD)"
    by (simp add: source_def alice_def star_event_def)
  show ?thesis
    using unposted_record_stays_unposted[OF f _ g n, of "sample_lib 0"] tally g a
    by (simp add: star_event_def)
qed

subsection \<open>The image archiver\<close>

text \<open>
  What the archiver does, exactly: it edits the mirror, attaching the fetched image as a
  file and pointing the first embed at the attachment, when the first embed has an image
  with a URL, the fetch (from the URL, or from the proxy URL after an
  \<^verbatim>\<open>httpx.HTTPError\<close>) gave a response, its status is 200 and its payload is strictly
  smaller than \<open>FS_LIMIT\<close>, which is 25 MiB where the guild reports 8 MiB; and in no
  other case.
\<close>

lemma archive_image_exact:
  "(archive_image lib m = Inr (Some ed) \<longleftrightarrow>
      (\<exists>e0 rest img u r.
         embeds m = e0 # rest \<and> e_image e0 = Some img \<and> img_url img = Some u \<and> u \<noteq> []
         \<and> fetch_image lib img u = Inr (Some r)
         \<and> status_code r = 200
         \<and> length (r_content r) <
             (if filesize_limit (m_guild m) = 8 * 1024 * 1024 then 25 * 1024 * 1024
              else filesize_limit (m_guild m))
         \<and> ed = \<lparr>ae_embeds =
                    e0\<lparr>e_image :=
                         Some \<lparr>img_url = Some (''attachment://''
                                                @ last (split_slash [] (urlparse_path lib u))),
                               img_proxy_url = None\<rparr>\<rparr> # rest,
                  ae_filename = last (split_slash [] (urlparse_path lib u)),
                  ae_file = r_content r\<rparr>))
   \<and> (embeds m = lead # others \<and> e_image lead = Some img \<and> img_url img = Some u
        \<and> fetch_image lib img u = Inr (Some r)
        \<and> (status_code r \<noteq> 200 \<or> FS_LIMIT m \<le> length (r_content r))
      \<longrightarrow> archive_image lib m = Inr None)"
  by (auto simp: archive_image_def FS_LIMIT_def Let_def
      split: list.splits option.splits sum.splits)

lemma FS_LIMIT_le_spec: "FS_LIMIT m \<le> spec_upload_limit (filesize_limit (m_guild m))"
  by (simp add: FS_LIMIT_def spec_upload_limit_def Let_def)

text \<open>
  Claim C7. The archiver attaches the fetched image as a file only when the status of
  the response is 200 and the size of the payload is within the effective upload limit
  of the guild, which for a guild that reports the base of 8 MiB is that base quadrupled;
  and for every payload that exceeds the effective limit it edits nothing, so that the
  embed keeps its remote URL and no file is attached. (The limit the code applies,
  \<open>FS_LIMIT\<close>, is never above the effective limit.)
\<close>

theorem archive_image_within_limit:
  "(archive_image lib m = Inr (Some ed) \<longrightarrow>
      (\<exists>shown rest img u r.
          embeds m = shown # rest \<and> e_image shown = Some img \<and> img_url img = Some u
          \<and> fetch_image lib img u = Inr (Some r)
          \<and> status_code r = 200
          \<and> length (r_content r) \<le> spec_upload_limit (filesize_limit (m_guild m))
          \<and> ae_file ed = r_content r))
   \<and> (embeds m = lead # others \<and> e_image lead = Some img \<and> img_url img = Some u
        \<and> fetch_image lib img u = Inr (Some r)
        \<and> spec_upload_limit (filesize_limit (m_guild m)) < length (r_content r)
      \<longrightarrow> archive_image lib m = Inr None)
   \<and> spec_upload_limit (8 * 1024 * 1024) = 4 * (8 * 1024 * 1024)"
proof (intro conjI impI)
  assume a: "archive_image lib m = Inr (Some ed)"
  then obtain shown rest img u r where
    f: "embeds m = shown # rest" "e_image shown = Some img" "img_url img = Some u"
       "fetch_image lib img u = Inr (Some r)" "status_code r = 200"
       "length (r_content r) < FS_LIMIT m" "ae_file ed = r_content r"
    by (auto simp: archive_image_def Let_def
        split: list.splits option.splits sum.splits if_splits)
  from f(6) FS_LIMIT_le_spec[of m]
  have "length (r_content r) \<le> spec_upload_limit (filesize_limit (m_guild m))" by simp
  with f show "\<exists>shown rest img u r.
          embeds m = shown # rest \<and> e_image shown = Some img \<and> img_url img = Some u
          \<and> fetch_image lib img u = Inr (Some r)
          \<and> status_code r = 200
          \<and> length (r_content r) \<le> spec_upload_limit (filesize_limit (m_guild m))
          \<and> ae_file ed = r_content r"
    by blast
next
  assume b: "embeds m = lead # others \<and> e_image lead = Some img \<and> img_url img = Some u
        \<and> fetch_image lib img u = Inr (Some r)
        \<and> spec_upload_limit (filesize_limit (m_guild m)) < length (r_content r)"
  with FS_LIMIT_le_spec[of m] have "\<not> length (r_content r) < FS_LIMIT m" by simp
  with b show "archive_image lib m = Inr None"
    by (simp add: archive_image_def Let_def)
next
  show "spec_upload_limit (8 * 1024 * 1024) = 4 * (8 * 1024 * 1024)"
    by (simp add: spec_upload_limit_def)
qed

text \<open>
  The theorem on a mirror whose first embed shows \<^verbatim>\<open>https://h/a/cat.png\<close>, in a guild
  that reports 8 MiB: a payload of 1000 bytes is attached as \<^verbatim>\<open>cat.png\<close>, one of
  40000000 bytes, above four times 8 MiB, is not.
\<close>

theorem archive_image_within_limit_witness:
  "filesize_limit (m_guild (mirror 2 300 [pictured, plain])) = 8 * 1024 * 1024
   \<and> spec_upload_limit (8 * 1024 * 1024) = 33554432
   \<and> archive_image (sample_lib 1000) (mirror 2 300 [pictured, plain])
       = Inr (Some \<lparr>ae_embeds =
                       [pictured\<lparr>e_image := Some \<lparr>img_url = Some ''attachment://cat.png'',
                                                   img_proxy_url = None\<rparr>\<rparr>, plain],
                     ae_filename = ''cat.png'',
                     ae_file = replicate 1000 (CHR ''x'')\<rparr>)
   \<and> length (replicate 1000 (CHR ''x'')) \<le> spec_upload_limit (8 * 1024 * 1024)
   \<and> spec_upload_limit (8 * 1024 * 1024) < length (replicate 40000000 (CHR ''x''))
   \<and> archive_image (sample_lib 40000000) (mirror 2 300 [pictured, plain]) = Inr None"
proof -
  let ?img = "\<lparr>img_url = Some ''https://h/a/cat.png'', img_proxy_url = None\<rparr>"
  let ?m = "mirror 2 300 [pictured, plain]"
  have l: "filesize_limit (m_guild ?m) = 8 * 1024 * 1024"
    by (simp add: mirror_def lcc_def)
  have s: "spec_upload_limit (8 * 1024 * 1024) = 33554432"
    by (simp add: spec_upload_limit_def)
  have small: "archive_image (sample_lib 1000) ?m
       = Inr (Some \<lparr>ae_embeds =
                       [pictured\<lparr>e_image := Some \<lparr>img_url = Some ''attachment://cat.png'',
                                                   img_proxy_url = None\<rparr>\<rparr>, plain],
                     ae_filename = ''cat.png'',
                     ae_file = replicate 1000 (CHR ''x'')\<rparr>)"
    by (simp add: archive_image_def fetch_image_def FS_LIMIT_def mirror_def lcc_def
        pictured_def sample_lib_def Let_def)
  have big: "embeds ?m = pictured # [plain] \<and> e_image pictured = Some ?img
        \<and> img_url ?img = Some ''https://h/a/cat.png''
        \<and> fetch_image (sample_lib 40000000) ?img ''https://h/a/cat.png''
            = Inr (Some \<lparr>status_code = 200, r_content = replicate 40000000 (CHR ''x'')\<rparr>)
        \<and> spec_upload_limit (filesize_limit (m_guild ?m))
            < length (r_content \<lparr>status_code = 200, r_content = replicate 40000000 (CHR ''x'')\<rparr>)"
    by (simp add: mirror_def lcc_def pictured_def fetch_image_def sample_lib_def
        spec_upload_limit_def)
  have none: "archive_image (sample_lib 40000000) ?m = Inr None"
    using archive_image_within_limit[where lib = "sample_lib 40000000" and m = ?m
        and lead = pictured and others = "[plain]" and img = ?img
        and u = "''https://h/a/cat.png''"
        and r = "\<lparr>status_code = 200, r_content = replicate 40000000 (CHR ''x'')\<rparr>",
        THEN conjunct2, THEN conjunct1] big
    by (rule mp)
  from l s small none show ?thesis
    by simp
qed

subsection \<open>The renderer\<close>

text \<open>
  Claim C9. The embed the renderer produces is determined by the message it is given (its
  star tally is read from the message) and by what fetching the message it replies to
  gives: two calls in two states of Discord that resolve the reply reference alike give
  the same result, be it an embed or an exception. Nothing else the bot knows, the store
  included, is read.
\<close>

theorem render_depends_only_on_its_inputs:
  assumes "case reference m of
             None \<Rightarrow> True
           | Some r \<Rightarrow> fetch_message env1 (ref_channel_id r) (ref_message_id r)
                       = fetch_message env2 (ref_channel_id r) (ref_message_id r)"
  shows "generate_starboard_embed lib env1 m = generate_starboard_embed lib env2 m"
proof -
  have "add_reply lib env1 m e = add_reply lib env2 m e" for e
    using assms by (simp add: add_reply_def split: option.splits)
  then show ?thesis
    by (simp add: generate_starboard_embed_def Let_def cong: sum.case_cong)
qed

text \<open>
  The theorem for a reply to message 100, rendered in two states of Discord that differ in
  the members intent, in the starboard channel and in what editing raises.
\<close>

theorem render_depends_only_on_its_inputs_witness:
  "reference ((source 2 3)\<lparr>reference := Some \<lparr>ref_channel_id = 10, ref_message_id = 100\<rparr>\<rparr>)
     = Some \<lparr>ref_channel_id = 10, ref_message_id = 100\<rparr>
   \<and> fetch_message (discord 2 3 (Inl NotFound) None) 10 100
     = fetch_message ((discord 2 3 (Inr (mirror 2 200 [])) (Some Forbidden))\<lparr>intents_members := False\<rparr>) 10 100
   \<and> edit (discord 2 3 (Inl NotFound) None)
     \<noteq> edit ((discord 2 3 (Inr (mirror 2 200 [])) (Some Forbidden))\<lparr>intents_members := False\<rparr>)
   \<and> generate_starboard_embed (sample_lib 0) (discord 2 3 (Inl NotFound) None)
        ((source 2 3)\<lparr>reference := Some \<lparr>ref_channel_id = 10, ref_message_id = 100\<rparr>\<rparr>)
     = generate_starboard_embed (sample_lib 0)
        ((discord 2 3 (Inr (mirror 2 200 [])) (Some Forbidden))\<lparr>intents_members := False\<rparr>)
        ((source 2 3)\<lparr>reference := Some \<lparr>ref_channel_id = 10, ref_message_id = 100\<rparr>\<rparr>)"
proof -
  let ?m = "(source 2 3)\<lparr>reference := Some \<lparr>ref_channel_id = 10, ref_message_id = 100\<rparr>\<rparr>"
  let ?e1 = "discord 2 3 (Inl NotFound) None"
  let ?e2 = "(discord 2 3 (Inr (mirror 2 200 [])) (Some Forbidden))\<lparr>intents_members := False\<rparr>"
  have r: "reference ?m = Some \<lparr>ref_channel_id = 10, ref_message_id = 100\<rparr>"
    by simp
  have f: "fetch_message ?e1 10 100 = fetch_message ?e2 10 100"
    by (simp add: discord_def)
  have d: "edit ?e1 \<noteq> edit ?e2"
    by (simp add: discord_def fun_eq_iff)
  have h: "case reference ?m of
             None \<Rightarrow> True
           | Some r \<Rightarrow> fetch_message ?e1 (ref_channel_id r) (ref_message_id r)
                       = fetch_message ?e2 (ref_channel_id r) (ref_message_id r)"
    using f by simp
  show ?thesis
    using render_depends_only_on_its_inputs[OF h, of "sample_lib 0"] r f d
    by simp
qed

subsection \<open>The listener on the sample inputs\<close>

lemma source_fields:
  "m_id (source n k) = 100" "author (source n k) = alice" "m_channel (source n k) = general n"
  "m_guild (source n k) = lcc n" "embeds (source n k) = [preview, plain]"
  by (simp_all add: source_def)

lemma star_count_source: "star_count_of (source n k) = k"
  by (simp add: star_count_of_def source_def)

lemma discord_answers:
  "intents_members (discord n k old ed) = True"
  "fetch_message (discord n k old ed) 10 100 = Inr (source n k)"
  "fetch_message (discord n k old ed) 20 200 = old"
  "fetch_message (discord n k old ed) 20 100 = Inl NotFound"
  "send (discord n k old ed) c es = Inr (mirror n 300 es)"
  "edit (discord n k old ed) m es = ed"
  "remove_reaction (discord n k old ed) m = None"
  "reply (discord n k old ed) m t = None"
  by (simp_all add: discord_def)

lemma star_event_fields:
  "guild_id (star_event u t) = Some 1" "channel_id (star_event u t) = 10"
  "message_id (star_event u t) = 100" "user_id (star_event u t) = u"
  "p_emoji (star_event u t) = white_medium_star" "p_event_type (star_event u t) = t"
  by (simp_all add: star_event_def)

lemma starboard_found:
  "utils_get (text_channels (lcc n)) ''starboard'' = Some starboard"
  "c_id starboard = 20" "can_send starboard"
  by (simp_all add: utils_get_def lcc_def general_def starboard_def)

lemma cap_general: "threshold_cap (discord n k old ed) (general n) = Inr (of_nat n / 10)"
  by (simp add: threshold_cap_def discord_def general_def humans_count)

lemma generate_source:
  "generate_starboard_embed (sample_lib z) (discord n k old ed) (source n k) = Inr (rendered n k)"
  by (simp add: generate_starboard_embed_def embed_cap_def add_reply_def rendered_def
      source_def general_def lcc_def alice_def sublist_code)

lemma mirror_embeds_source:
  "mirror_embeds (sample_lib z) (discord n k old ed) (source n k) = Inr [rendered n k, plain]"
  by (simp add: mirror_embeds_def generate_source source_fields preview_def plain_def)

lemma tracked_get:
  "objects_get [tracked x] 100 = Inr (tracked x)" "objects_get [] i = Inl NoMatch"
  "sb_id (tracked x) = 100" "starboard_message (tracked x) = x"
  "entry_delete [tracked x] (tracked y) = []"
  "entry_update [tracked x] (tracked y) i = [tracked (Some i)]"
  by (simp_all add: objects_get_def tracked_def entry_delete_def entry_update_def)

lemma get_or_create_sample:
  "objects_get_or_create [] 10 100 = Inr ((tracked None, True), [tracked None])"
  "objects_get_or_create [tracked x] 10 100 = Inr ((tracked x, False), [tracked x])"
  by (simp_all add: objects_get_or_create_def objects_get_def tracked_def Let_def)

lemmas sample_run = source_fields star_count_source discord_answers star_event_fields
  starboard_found cap_general mirror_embeds_source tracked_get get_or_create_sample
  alice_def falsy_id_def

lemmas listener_steps = on_star_add_def lost_all_stars_def synchronise_def on_created_def
  on_existing_def post_mirror_def self_star_def Let_def

lemma on_star_add_self_star:
  assumes "\<not> falsy_id (guild_id p)" and "p_emoji p = white_medium_star"
    and "fetch_message env (channel_id p) (message_id p) = Inr m"
    and "u_id (author m) = user_id p" and "p_event_type p = REACTION_ADD"
  shows "on_star_add lib env p st = self_star env m st"
  using assms by (simp add: on_star_add_def)

lemma on_star_add_reaches:
  assumes "\<not> falsy_id (guild_id p)" and "p_emoji p = white_medium_star"
    and "fetch_message env (channel_id p) (message_id p) = Inr m"
    and "u_id (author m) \<noteq> user_id p \<or> p_event_type p \<noteq> REACTION_ADD"
  shows "on_star_add lib env p st =
           (if star_count_of m = 0 then lost_all_stars lib env p m 0 st
            else synchronise lib env p m (star_count_of m) st [])"
  using assms by (auto simp: on_star_add_def Let_def)

subsection \<open>At most one record for a message\<close>

lemma distinct_ids_count:
  "distinct (map sb_id st) \<Longrightarrow> length (filter (\<lambda>r. sb_id r = i) st) \<le> 1"
proof (induction st)
  case Nil
  then show ?case by simp
next
  case (Cons a st)
  show ?case
  proof (cases "sb_id a = i")
    case True
    with Cons.prems have "i \<notin> sb_id ` set st" by simp
    then have "filter (\<lambda>r. sb_id r = i) st = []"
      by (auto simp: filter_empty_conv)
    with True show ?thesis by simp
  next
    case False
    with Cons show ?thesis by simp
  qed
qed

lemma entry_update_ids: "map sb_id (entry_update st entry x) = map sb_id st"
  by (induction st) (auto simp: entry_update_def)

lemma entry_delete_distinct:
  "distinct (map sb_id st) \<Longrightarrow> distinct (map sb_id (entry_delete st entry))"
  by (simp add: entry_delete_def distinct_map_filter)

lemma get_or_create_distinct:
  assumes "distinct (map sb_id st)" and "objects_get_or_create st c i = Inr (ec, st1)"
  shows "distinct (map sb_id st1)"
proof (cases "objects_get st i")
  case (Inl e)
  with assms(2) have e: "e = NoMatch" and st1: "st1 = st @ [\<lparr>sb_id = i, sb_channel = c, starboard_message = None\<rparr>]"
    by (auto simp: objects_get_or_create_def Let_def split: if_splits)
  from Inl e have "filter (\<lambda>r. sb_id r = i) st = []" by (simp add: objects_get_NoMatch)
  then have "i \<notin> sb_id ` set st" by (auto simp: filter_empty_conv)
  with assms(1) st1 show ?thesis by simp
next
  case (Inr r)
  with assms show ?thesis by (simp add: objects_get_or_create_def)
qed

lemma post_mirror_distinct:
  "distinct (map sb_id st) \<Longrightarrow> distinct (map sb_id (fst (snd (post_mirror env ch es entry st acts))))"
  by (simp add: post_mirror_def entry_update_ids split: sum.splits)

lemma on_created_distinct:
  "distinct (map sb_id st) \<Longrightarrow> distinct (map sb_id (fst (snd (on_created lib env m s entry st acts))))"
  by (simp add: on_created_def post_mirror_distinct entry_delete_distinct split: sum.splits option.splits)

lemma on_existing_distinct:
  "distinct (map sb_id st) \<Longrightarrow> distinct (map sb_id (fst (snd (on_existing lib env m entry st acts))))"
  by (simp add: on_existing_def Let_def post_mirror_distinct split: sum.splits option.splits)

lemma synchronise_distinct:
  assumes "distinct (map sb_id st)"
  shows "distinct (map sb_id (fst (snd (synchronise lib env p m s st acts))))"
proof (cases "objects_get_or_create st (channel_id p) (message_id p)")
  case (Inl e)
  with assms show ?thesis by (simp add: synchronise_def)
next
  case (Inr x)
  obtain entry created st1 where x: "x = ((entry, created), st1)" by (metis surj_pair)
  from assms Inr x have "distinct (map sb_id st1)" by (auto dest: get_or_create_distinct)
  with Inr x show ?thesis
    by (simp add: synchronise_def on_created_distinct on_existing_distinct)
qed

lemma lost_all_stars_distinct:
  "distinct (map sb_id st) \<Longrightarrow> distinct (map sb_id (fst (snd (lost_all_stars lib env p m s st))))"
  by (simp add: lost_all_stars_def synchronise_distinct entry_delete_distinct split: sum.splits option.splits)

lemma self_star_store: "fst (snd (self_star env m st)) = st"
  by (simp add: self_star_def Let_def split: option.splits)

lemma on_star_add_distinct:
  "distinct (map sb_id st) \<Longrightarrow> distinct (map sb_id (fst (snd (on_star_add lib env p st))))"
  by (simp add: on_star_add_def Let_def self_star_store lost_all_stars_distinct synchronise_distinct
      split: sum.splits)

lemma run_events_distinct:
  "distinct (map sb_id st) \<Longrightarrow> \<forall>st' \<in> set (run_events lib evs st). distinct (map sb_id st')"
proof (induction evs arbitrary: st)
  case Nil
  then show ?case by simp
next
  case (Cons ev evs)
  obtain env p where ev: "ev = (env, p)" by (cases ev)
  from Cons.prems have d: "distinct (map sb_id (fst (snd (on_star_add lib env p st))))"
    by (rule on_star_add_distinct)
  from Cons.IH[OF d] d ev show ?case by (simp add: Let_def)
qed

lemma below_cap_leaves_no_record:
  assumes "fetch_message env (channel_id p) (message_id p) = Inr m"
    and "threshold_cap env (m_channel m) = Inr cap"
    and "of_nat (star_count_of m) < cap"
    and "objects_get st (message_id p) = Inl NoMatch"
  shows "fst (snd (on_star_add lib env p st)) = st"
proof -
  from assms(4) have f: "filter (\<lambda>r. sb_id r = message_id p) st = []"
    by (simp add: objects_get_NoMatch)
  then have "filter (\<lambda>r. sb_id r \<noteq> message_id p) st = st"
    by (simp add: filter_empty_conv filter_id_conv)
  with assms show ?thesis
    by (simp add: on_star_add_def Let_def self_star_store lost_all_stars_def synchronise_def
        get_or_create_absent on_created_def entry_delete_def)
qed

lemma unposted_store_unchanged:
  assumes "fetch_message env (channel_id p) (message_id p) = Inr m"
    and "star_count_of m \<noteq> 0"
    and "objects_get st (message_id p) = Inr r"
    and "starboard_message r = None"
  shows "fst (snd (on_star_add lib env p st)) = st"
  using assms on_existing_unposted[of r lib env m st "[]"] self_star_store[of env m st]
  by (simp add: on_star_add_def Let_def synchronise_def get_or_create_existing)

text \<open>
  Claim C2, as the code has it. Whatever the events and whatever Discord answers, a store
  that holds at most one record for each source message keeps holding at most one: after
  every event of a sequence, for every id, at most one row has that id. When the message
  has no record in the store and its tally is below the cap, the event leaves the store
  as it was, so that handling the same event twice leaves no record for the message after
  the first run and after the second. When the message has a record without a mirror id
  and at least one star, the event leaves the store as it was too: after each of the two
  runs that one record is still there.
\<close>

theorem at_most_one_record:
  assumes "distinct (map sb_id st)"
  shows "(\<forall>st' \<in> set (run_events lib evs st). \<forall>i. length (filter (\<lambda>r. sb_id r = i) st') \<le> 1)
       \<and> (fetch_message env (channel_id p) (message_id p) = Inr m
          \<and> threshold_cap env (m_channel m) = Inr cap
          \<and> of_nat (star_count_of m) < cap
          \<and> objects_get st (message_id p) = Inl NoMatch
          \<longrightarrow> run_events lib [(env, p), (env, p)] st = [st, st]
              \<and> (\<forall>st' \<in> set (run_events lib [(env, p), (env, p)] st).
                    filter (\<lambda>r. sb_id r = message_id p) st' = []))
       \<and> (fetch_message env (channel_id p) (message_id p) = Inr m
          \<and> star_count_of m \<noteq> 0
          \<and> objects_get st (message_id p) = Inr r
          \<and> starboard_message r = None
          \<longrightarrow> run_events lib [(env, p), (env, p)] st = [st, st]
              \<and> (\<forall>st' \<in> set (run_events lib [(env, p), (env, p)] st).
                    filter (\<lambda>r. sb_id r = message_id p) st' = [r]))"
proof -
  have one: "\<forall>st' \<in> set (run_events lib evs st). \<forall>i. length (filter (\<lambda>r. sb_id r = i) st') \<le> 1"
  proof (intro ballI allI)
    fix st' i
    assume "st' \<in> set (run_events lib evs st)"
    with run_events_distinct[OF assms, of lib evs] have "distinct (map sb_id st')" by blast
    then show "length (filter (\<lambda>r. sb_id r = i) st') \<le> 1" by (rule distinct_ids_count)
  qed
  have two: "run_events lib [(env, p), (env, p)] st = [st, st]
      \<and> (\<forall>st' \<in> set (run_events lib [(env, p), (env, p)] st).
            filter (\<lambda>r. sb_id r = message_id p) st' = [])"
    if h: "fetch_message env (channel_id p) (message_id p) = Inr m"
          "threshold_cap env (m_channel m) = Inr cap"
          "of_nat (star_count_of m) < cap"
          "objects_get st (message_id p) = Inl NoMatch"
  proof -
    have "fst (snd (on_star_add lib env p st)) = st"
      using h by (rule below_cap_leaves_no_record)
    moreover have "filter (\<lambda>r. sb_id r = message_id p) st = []"
      using h(4) by (simp add: objects_get_NoMatch)
    ultimately show ?thesis by (simp add: Let_def)
  qed
  have three: "run_events lib [(env, p), (env, p)] st = [st, st]
      \<and> (\<forall>st' \<in> set (run_events lib [(env, p), (env, p)] st).
            filter (\<lambda>r. sb_id r = message_id p) st' = [r])"
    if h: "fetch_message env (channel_id p) (message_id p) = Inr m"
          "star_count_of m \<noteq> 0"
          "objects_get st (message_id p) = Inr r"
          "starboard_message r = None"
  proof -
    have "fst (snd (on_star_add lib env p st)) = st"
      using h by (rule unposted_store_unchanged)
    moreover have "filter (\<lambda>r. sb_id r = message_id p) st = [r]"
      using h(3) by (auto simp: objects_get_def split: list.splits)
    ultimately show ?thesis by (simp add: Let_def)
  qed
  from one two three show ?thesis by blast
qed

text \<open>
  The theorem for a message with three stars in a channel of forty people (cap 4), the
  same addition handled twice: from the empty store, and from a store that holds its
  record without a mirror id.
\<close>

theorem at_most_one_record_witness:
  "distinct (map sb_id ([] :: store))
   \<and> threshold_cap (discord 40 3 (Inl NotFound) None) (m_channel (source 40 3)) = Inr 4
   \<and> star_count_of (source 40 3) = 3
   \<and> run_events (sample_lib 0)
        [(discord 40 3 (Inl NotFound) None, star_event 2 REACTION_ADD),
         (discord 40 3 (Inl NotFound) None, star_event 2 REACTION_ADD)] [] = [[], []]
   \<and> distinct (map sb_id [tracked None])
   \<and> run_events (sample_lib 0)
        [(discord 40 3 (Inl NotFound) None, star_event 2 REACTION_ADD),
         (discord 40 3 (Inl NotFound) None, star_event 2 REACTION_ADD)] [tracked None]
       = [[tracked None], [tracked None]]"
proof -
  let ?env = "discord 40 3 (Inl NotFound) None"
  let ?p = "star_event 2 REACTION_ADD"
  have d0: "distinct (map sb_id ([] :: store))" by simp
  have d1: "distinct (map sb_id [tracked None])" by simp
  have cap: "threshold_cap ?env (m_channel (source 40 3)) = Inr 4"
    by (simp add: sample_run)
  have tally: "star_count_of (source 40 3) = 3"
    by (simp add: sample_run)
  have absent: "fetch_message ?env (channel_id ?p) (message_id ?p) = Inr (source 40 3)
      \<and> threshold_cap ?env (m_channel (source 40 3)) = Inr 4
      \<and> of_nat (star_count_of (source 40 3)) < (4 :: rat)
      \<and> objects_get [] (message_id ?p) = Inl NoMatch"
    by (simp add: sample_run)
  have unposted: "fetch_message ?env (channel_id ?p) (message_id ?p) = Inr (source 40 3)
      \<and> star_count_of (source 40 3) \<noteq> 0
      \<and> objects_get [tracked None] (message_id ?p) = Inr (tracked None)
      \<and> starboard_message (tracked None) = None"
    by (simp add: sample_run)
  have a: "run_events (sample_lib 0) [(?env, ?p), (?env, ?p)] [] = [[], []]"
    using at_most_one_record[OF d0, where lib = "sample_lib 0" and env = ?env and p = ?p
        and m = "source 40 3" and cap = 4, THEN conjunct2, THEN conjunct1] absent
    by (rule mp[THEN conjunct1])
  have b: "run_events (sample_lib 0) [(?env, ?p), (?env, ?p)] [tracked None]
           = [[tracked None], [tracked None]]"
    using at_most_one_record[OF d1, where lib = "sample_lib 0" and env = ?env and p = ?p
        and m = "source 40 3" and r = "tracked None", THEN conjunct2, THEN conjunct2] unposted
    by (rule mp[THEN conjunct1])
  from d0 d1 cap tally a b show ?thesis
    by simp
qed

lemma boardless_fields:
  "author (boardless n k) = alice" "m_channel (boardless n k) = general n"
  "utils_get (text_channels (m_guild (boardless n k))) ''starboard'' = None"
  "star_count_of (boardless n k) = k"
  "fetch_message (discord_boardless n k) 10 100 = Inr (boardless n k)"
  "threshold_cap (discord_boardless n k) (general n) = Inr (of_nat n / 10)"
  by (simp_all add: boardless_def discord_boardless_def source_def utils_get_def general_def
      star_count_of_def threshold_cap_def discord_def humans_count)

text \<open>
  Claim C2 as it is worded fails. In a guild without a starboard channel the fifth star
  on a message in a channel of forty people (cap 4) creates its record, and nothing is
  posted: the message has no mirror. With three stars, below the cap, the same addition
  handled twice leaves that record in the store after the first run and after the second.
\<close>

theorem null_mirror_record_counterexample:
  "star_count_of (boardless 40 5) = 5
   \<and> threshold_cap (discord_boardless 40 5) (m_channel (boardless 40 5)) = Inr 4
   \<and> star_count_of (source 40 3) = 3
   \<and> threshold_cap (discord 40 3 (Inl NotFound) None) (m_channel (source 40 3)) = Inr 4
   \<and> run_events (sample_lib 0)
        [(discord_boardless 40 5, star_event 2 REACTION_ADD),
         (discord 40 3 (Inl NotFound) None, star_event 2 REACTION_ADD),
         (discord 40 3 (Inl NotFound) None, star_event 2 REACTION_ADD)] []
       = [[tracked None], [tracked None], [tracked None]]
   \<and> objects_get [tracked None] 100 = Inr (tracked None)
   \<and> starboard_message (tracked None) = None"
proof -
  have a: "on_star_add (sample_lib 0) (discord_boardless 40 5) (star_event 2 REACTION_ADD) []
           = (None, [tracked None], [])"
    by (simp add: listener_steps sample_run boardless_fields)
  have b: "on_star_add (sample_lib 0) (discord 40 3 (Inl NotFound) None)
             (star_event 2 REACTION_ADD) [tracked None]
           = (None, [tracked None], [])"
    by (simp add: listener_steps sample_run)
  show ?thesis
    by (simp add: a b sample_run boardless_fields Let_def)
qed

subsection \<open>The embeds of a mirror\<close>

lemma post_mirror_sends:
  assumes "a \<in> set (snd (snd (post_mirror env ch es entry st acts)))"
    and "sent_embeds a = Some es'"
  shows "es' = es \<or> a \<in> set acts"
  using assms by (auto simp: post_mirror_def split: sum.splits)

lemma on_created_sends:
  assumes "a \<in> set (snd (snd (on_created lib env m s entry st acts)))"
    and "sent_embeds a = Some es"
  shows "mirror_embeds lib env m = Inr es \<or> a \<in> set acts"
  using assms
  by (auto simp: on_created_def split: sum.splits option.splits if_splits
      dest: post_mirror_sends)

lemma on_existing_sends:
  assumes "a \<in> set (snd (snd (on_existing lib env m entry st acts)))"
    and "sent_embeds a = Some es"
  shows "mirror_embeds lib env m = Inr es \<or> a \<in> set acts"
  using assms
  by (auto simp: on_existing_def Let_def split: sum.splits option.splits if_splits
      dest: post_mirror_sends)

lemma synchronise_sends:
  assumes "a \<in> set (snd (snd (synchronise lib env p m s st acts)))"
    and "sent_embeds a = Some es"
  shows "mirror_embeds lib env m = Inr es \<or> a \<in> set acts"
  using assms
  by (auto simp: synchronise_def split: sum.splits if_splits
      dest: on_created_sends on_existing_sends)


lemma lost_all_stars_sends:
  assumes "a \<in> set (snd (snd (lost_all_stars lib env p m s st)))"
    and "sent_embeds a = Some es"
  shows "\<exists>subject.
           (subject = m
            \<or> (\<exists>ch. utils_get (text_channels (m_guild m)) ''starboard'' = Some ch
                    \<and> fetch_message env (c_id ch) (message_id p) = Inr subject))
           \<and> mirror_embeds lib env subject = Inr es"
proof (cases "objects_get st (message_id p)")
  case (Inl e)
  with assms show ?thesis by (auto simp: lost_all_stars_def split: if_splits)
next
  case (Inr database)
  then have id: "sb_id database = message_id p" by (simp add: objects_get_Inr)
  show ?thesis
  proof (cases "utils_get (text_channels (m_guild m)) ''starboard''")
    case None
    with Inr assms show ?thesis
      by (auto simp: lost_all_stars_def dest: synchronise_sends)
  next
    case (Some ch)
    show ?thesis
    proof (cases "fetch_message env (c_id ch) (message_id p)")
      case (Inl e)
      with Inr Some id assms show ?thesis
        by (auto simp: lost_all_stars_def split: if_splits dest: synchronise_sends)
    next
      case found: (Inr found)
      with Inr Some id assms
      have "a \<in> set (snd (snd (synchronise lib env p found s (entry_delete st database) [Delete found])))"
        by (simp add: lost_all_stars_def)
      from synchronise_sends[OF this assms(2)] assms(2)
      have "mirror_embeds lib env found = Inr es" by auto
      with Some found show ?thesis by blast
    qed
  qed
qed

lemma self_star_sends:
  "a \<in> set (snd (snd (self_star env m st))) \<Longrightarrow> sent_embeds a = None"
  by (auto simp: self_star_def Let_def split: option.splits if_splits)

lemma mirror_embeds_shape:
  assumes "mirror_embeds lib env m = Inr es"
  shows "\<exists>emb. generate_starboard_embed lib env m = Inr emb
           \<and> es = take 10 (emb # filter (\<lambda>x. e_type x = ''rich'') (embeds m))
           \<and> hd es = emb \<and> 1 \<le> length es \<and> length es \<le> 10
           \<and> length (tl es) = min 9 (length (filter (\<lambda>x. e_type x = ''rich'') (embeds m)))"
proof (cases "generate_starboard_embed lib env m")
  case (Inl e)
  with assms show ?thesis by (simp add: mirror_embeds_def)
next
  case (Inr emb)
  with assms have es: "es = take 10 (emb # filter (\<lambda>x. e_type x = ''rich'') (embeds m))"
    by (auto simp: mirror_embeds_def)
  have "take 10 (emb # filter (\<lambda>x. e_type x = ''rich'') (embeds m))
        = emb # take 9 (filter (\<lambda>x. e_type x = ''rich'') (embeds m))"
    by (simp add: take_Cons')
  with es Inr show ?thesis by (simp add: min_def)
qed

text \<open>
  Claim C8. Every post to the starboard channel and every edit of a mirror carries the
  embed the renderer generated, followed by the rich embeds of the message in their order,
  cut after ten: the list has at least one embed and at most ten, at most nine of them
  copied. The message is the source message as fetched by its id: from its channel at
  line 124, or, when its tally is 0 and lines 146--147 found a message of that id in the
  starboard channel, that message.
\<close>

theorem mirror_embed_list:
  assumes "fetch_message env (channel_id p) (message_id p) = Inr m"
  shows "\<forall>a \<in> set (snd (snd (on_star_add lib env p st))). \<forall>es. sent_embeds a = Some es \<longrightarrow>
           (\<exists>subject emb.
              (subject = m
               \<or> (star_count_of m = 0
                  \<and> (\<exists>ch. utils_get (text_channels (m_guild m)) ''starboard'' = Some ch
                          \<and> fetch_message env (c_id ch) (message_id p) = Inr subject)))
              \<and> generate_starboard_embed lib env subject = Inr emb
              \<and> es = take 10 (emb # filter (\<lambda>x. e_type x = ''rich'') (embeds subject))
              \<and> hd es = emb \<and> 1 \<le> length es \<and> length es \<le> 10
              \<and> length (tl es) = min 9 (length (filter (\<lambda>x. e_type x = ''rich'') (embeds subject))))"
proof (intro ballI allI impI)
  fix a es
  assume a: "a \<in> set (snd (snd (on_star_add lib env p st)))" and s: "sent_embeds a = Some es"
  have "\<exists>subject.
          (subject = m
           \<or> (star_count_of m = 0
              \<and> (\<exists>ch. utils_get (text_channels (m_guild m)) ''starboard'' = Some ch
                      \<and> fetch_message env (c_id ch) (message_id p) = Inr subject)))
          \<and> mirror_embeds lib env subject = Inr es"
  proof (cases "falsy_id (guild_id p) \<or> p_emoji p \<noteq> white_medium_star")
    case True
    with a show ?thesis by (auto simp: on_star_add_def split: if_splits)
  next
    case False
    then have guild: "\<not> falsy_id (guild_id p)" "p_emoji p = white_medium_star" by auto
    show ?thesis
    proof (cases "u_id (author m) = user_id p \<and> p_event_type p = REACTION_ADD")
      case True
      with guild assms a have "a \<in> set (snd (snd (self_star env m st)))"
        by (simp add: on_star_add_self_star)
      with s show ?thesis by (simp add: self_star_sends)
    next
      case False
      then have other: "u_id (author m) \<noteq> user_id p \<or> p_event_type p \<noteq> REACTION_ADD"
        by auto
      note run = on_star_add_reaches[OF guild assms other, of lib st]
      show ?thesis
      proof (cases "star_count_of m = 0")
        case True
        with run a
        have "a \<in> set (snd (snd (lost_all_stars lib env p m 0 st)))"
          by simp
        from lost_all_stars_sends[OF this s] True show ?thesis by blast
      next
        case False
        with run a
        have "a \<in> set (snd (snd (synchronise lib env p m (star_count_of m) st [])))"
          by simp
        from synchronise_sends[OF this s] show ?thesis by auto
      qed
    qed
  qed
  then obtain subject where
    sub: "subject = m
           \<or> (star_count_of m = 0
              \<and> (\<exists>ch. utils_get (text_channels (m_guild m)) ''starboard'' = Some ch
                      \<and> fetch_message env (c_id ch) (message_id p) = Inr subject))"
    and me: "mirror_embeds lib env subject = Inr es"
    by blast
  from mirror_embeds_shape[OF me] sub
  show "\<exists>subject emb.
              (subject = m
               \<or> (star_count_of m = 0
                  \<and> (\<exists>ch. utils_get (text_channels (m_guild m)) ''starboard'' = Some ch
                          \<and> fetch_message env (c_id ch) (message_id p) = Inr subject)))
              \<and> generate_starboard_embed lib env subject = Inr emb
              \<and> es = take 10 (emb # filter (\<lambda>x. e_type x = ''rich'') (embeds subject))
              \<and> hd es = emb \<and> 1 \<le> length es \<and> length es \<le> 10
              \<and> length (tl es) = min 9 (length (filter (\<lambda>x. e_type x = ''rich'') (embeds subject)))"
    by blast
qed

text \<open>
  The theorem for the third star on a message whose embeds are a link preview and a rich
  embed: the post carries the generated embed and the rich one.
\<close>

theorem mirror_embed_list_witness:
  "fetch_message (discord 2 3 (Inl NotFound) None) 10 100 = Inr (source 2 3)
   \<and> generate_starboard_embed (sample_lib 0) (discord 2 3 (Inl NotFound) None) (source 2 3)
       = Inr (rendered 2 3)
   \<and> embeds (source 2 3) = [preview, plain]
   \<and> snd (snd (on_star_add (sample_lib 0) (discord 2 3 (Inl NotFound) None)
                  (star_event 2 REACTION_ADD) []))
       = [Send 20 [rendered 2 3, plain], ArchiveImage (mirror 2 300 [rendered 2 3, plain])]
   \<and> (\<exists>subject emb.
          generate_starboard_embed (sample_lib 0) (discord 2 3 (Inl NotFound) None) subject
            = Inr emb
          \<and> [rendered 2 3, plain]
              = take 10 (emb # filter (\<lambda>x. e_type x = ''rich'') (embeds subject)))"
proof -
  let ?env = "discord 2 3 (Inl NotFound) None"
  let ?sent = "[rendered 2 3, plain]"
  have f: "fetch_message ?env
             (channel_id (star_event 2 REACTION_ADD)) (message_id (star_event 2 REACTION_ADD))
           = Inr (source 2 3)"
    by (simp add: sample_run)
  have run: "on_star_add (sample_lib 0) ?env (star_event 2 REACTION_ADD) []
             = (None, [tracked (Some 300)],
                [Send 20 ?sent, ArchiveImage (mirror 2 300 ?sent)])"
    by (simp add: listener_steps sample_run mirror_def)
  have "Send 20 ?sent
          \<in> set (snd (snd (on_star_add (sample_lib 0) ?env (star_event 2 REACTION_ADD) [])))"
    by (simp add: run)
  from bspec[OF mirror_embed_list[OF f, of "sample_lib 0" "[]"] this]
  have "sent_embeds (Send 20 ?sent) = Some ?sent \<longrightarrow>
          (\<exists>subject emb.
              (subject = source 2 3
               \<or> (star_count_of (source 2 3) = 0
                  \<and> (\<exists>ch. utils_get (text_channels (m_guild (source 2 3))) ''starboard'' = Some ch
                          \<and> fetch_message ?env (c_id ch) (message_id (star_event 2 REACTION_ADD))
                              = Inr subject)))
              \<and> generate_starboard_embed (sample_lib 0) ?env subject = Inr emb
              \<and> ?sent = take 10 (emb # filter (\<lambda>x. e_type x = ''rich'') (embeds subject))
              \<and> hd ?sent = emb \<and> 1 \<le> length ?sent \<and> length ?sent \<le> 10
              \<and> length (tl ?sent)
                  = min 9 (length (filter (\<lambda>x. e_type x = ''rich'') (embeds subject))))"
    by (rule spec)
  then have ex: "\<exists>subject emb.
          generate_starboard_embed (sample_lib 0) ?env subject = Inr emb
          \<and> ?sent = take 10 (emb # filter (\<lambda>x. e_type x = ''rich'') (embeds subject))"
    by auto
  have g: "fetch_message ?env 10 100 = Inr (source 2 3)"
    by (simp add: sample_run)
  from ex run g show ?thesis
    by (simp add: generate_source source_fields)
qed

subsection \<open>A message that lost all its stars\<close>

text \<open>
  Claim C1 fails on the code. A tracked message whose mirror is message 200 of the
  starboard channel loses its last star, in a channel of two people (cap 0.2). Line 146
  fetches \<^verbatim>\<open>database.id\<close>, the id of the source message, from the starboard channel;
  that is not found, the exception is swallowed, and only the record is deleted: no
  deletion is asked of Discord, and the mirror stays.
\<close>

theorem lost_stars_mirror_survives:
  "starboard_message (tracked (Some 200)) = Some 200
   \<and> fetch_message (discord 2 0 (Inr (mirror 2 200 [plain])) None) 20 200
       = Inr (mirror 2 200 [plain])
   \<and> star_count_of (source 2 0) = 0
   \<and> threshold_cap (discord 2 0 (Inr (mirror 2 200 [plain])) None) (general 2) = Inr (2 / 10)
   \<and> on_star_add (sample_lib 0) (discord 2 0 (Inr (mirror 2 200 [plain])) None)
        (star_event 2 REACTION_REMOVE) [tracked (Some 200)]
       = (None, [], [])"
  by (simp add: listener_steps sample_run)

text \<open>
  Claim C6 fails on the code. In a channel whose member list holds no person (cap 0), the
  tracked message loses its last star. Lines 137--153 delete the record and do not return;
  line 155 creates it again, and since \<^verbatim>\<open>0 >= 0\<close> a mirror of the message without stars
  is posted and its id stored.
\<close>

theorem zero_stars_posted_at_cap_zero:
  "star_count_of (source 0 0) = 0
   \<and> threshold_cap (discord 0 0 (Inr (mirror 0 200 [plain])) None) (general 0) = Inr 0
   \<and> on_star_add (sample_lib 0) (discord 0 0 (Inr (mirror 0 200 [plain])) None)
        (star_event 2 REACTION_REMOVE) [tracked (Some 200)]
       = (None, [tracked (Some 300)],
          [Send 20 [rendered 0 0, plain], ArchiveImage (mirror 0 300 [rendered 0 0, plain])])"
  by (simp add: listener_steps sample_run mirror_def)

subsection \<open>The cap\<close>

lemma tenth_le: "(of_nat pop / 10 \<le> (of_nat s :: rat)) \<longleftrightarrow> pop \<le> 10 * s"
proof -
  have "(of_nat pop / 10 \<le> (of_nat s :: rat)) \<longleftrightarrow> (of_nat pop :: rat) \<le> of_nat s * 10"
    by (simp add: pos_divide_le_eq)
  also have "\<dots> \<longleftrightarrow> (of_nat pop :: rat) \<le> of_nat (s * 10)"
    by simp
  also have "\<dots> \<longleftrightarrow> pop \<le> s * 10"
    by (rule of_nat_le_iff)
  finally show ?thesis by (simp add: mult.commute)
qed

lemma threshold_cap_population:
  assumes "threshold_cap env ch = Inr cap"
  shows "0 \<le> cap \<and> (\<exists>pop. cap = of_nat pop / 10 \<and> (cap \<le> of_nat s \<longleftrightarrow> pop \<le> 10 * s))"
proof -
  have "\<exists>pop. cap = of_nat pop / 10"
  proof (cases "if intents_members env then members ch else None")
    case (Some ms)
    with assms have "cap = of_nat (length (filter (\<lambda>x. \<not> bot x) ms)) / 10"
      by (simp add: threshold_cap_def)
    then show ?thesis by (rule exI)
  next
    case None
    show ?thesis
    proof (cases "member_count ch")
      case nomc: None
      with None assms show ?thesis by (simp add: threshold_cap_def)
    next
      case (Some n)
      with None assms have "cap = of_nat n / 10"
        by (simp add: threshold_cap_def)
      then show ?thesis by (rule exI)
    qed
  qed
  then obtain pop where c: "cap = of_nat pop / 10" ..
  have "0 \<le> cap" by (simp add: c)
  moreover have "cap \<le> of_nat s \<longleftrightarrow> pop \<le> 10 * s"
    unfolding c by (rule tenth_le)
  ultimately show ?thesis using c by blast
qed

text \<open>
  Claim C3, as the code has it. The cap of the synchronizer is a tenth of the number of
  members of the message's channel that are not bots, when the members intent is on and the
  channel has a member list, and a tenth of the channel's reported member count otherwise
  (reading it raises \<^verbatim>\<open>AttributeError\<close> on a channel without one). The guild's member
  count is not read, and nothing is floored: the cap is a tenth of a natural number, 0
  when that number is 0. A record just created is deleted exactly when the tally is below
  the cap, that is when ten times the tally is below the population; otherwise the message
  qualifies, and with a starboard channel to send to, the mirror is posted and its id
  stored.
\<close>

theorem listener_cap:
  "(intents_members env \<and> members ch = Some ms
      \<longrightarrow> threshold_cap env ch = Inr (of_nat (length (filter (\<lambda>x. \<not> bot x) ms)) / 10))
   \<and> ((\<not> intents_members env \<or> members ch = None) \<and> member_count ch = Some n
      \<longrightarrow> threshold_cap env ch = Inr (of_nat n / 10))
   \<and> ((\<not> intents_members env \<or> members ch = None) \<and> member_count ch = None
      \<longrightarrow> threshold_cap env ch = Inl AttributeError)
   \<and> (threshold_cap env ch = Inr cap
      \<longrightarrow> 0 \<le> cap \<and> (\<exists>pop. cap = of_nat pop / 10 \<and> (cap \<le> of_nat s \<longleftrightarrow> pop \<le> 10 * s)))
   \<and> (threshold_cap env (m_channel m) = Inr cap \<and> of_nat s < cap
      \<longrightarrow> on_created lib env m s entry st acts = (None, entry_delete st entry, acts))
   \<and> (threshold_cap env (m_channel m) = Inr cap \<and> cap \<le> of_nat s
        \<and> utils_get (text_channels (m_guild m)) ''starboard'' = Some sb \<and> can_send sb
        \<and> mirror_embeds lib env m = Inr es \<and> send env (c_id sb) es = Inr msg
      \<longrightarrow> on_created lib env m s entry st acts
           = (None, entry_update st entry (m_id msg),
              acts @ [Send (c_id sb) es, ArchiveImage msg]))"
proof (intro conjI impI)
  assume "intents_members env \<and> members ch = Some ms"
  then show "threshold_cap env ch = Inr (of_nat (length (filter (\<lambda>x. \<not> bot x) ms)) / 10)"
    by (simp add: threshold_cap_def)
next
  assume "(\<not> intents_members env \<or> members ch = None) \<and> member_count ch = Some n"
  then show "threshold_cap env ch = Inr (of_nat n / 10)"
    by (auto simp: threshold_cap_def)
next
  assume "(\<not> intents_members env \<or> members ch = None) \<and> member_count ch = None"
  then show "threshold_cap env ch = Inl AttributeError"
    by (auto simp: threshold_cap_def)
next
  assume "threshold_cap env ch = Inr cap"
  then show "0 \<le> cap" using threshold_cap_population[of env ch cap s] by simp
next
  assume "threshold_cap env ch = Inr cap"
  then show "\<exists>pop. cap = of_nat pop / 10 \<and> (cap \<le> of_nat s \<longleftrightarrow> pop \<le> 10 * s)"
    using threshold_cap_population[of env ch cap s] by simp
next
  assume "threshold_cap env (m_channel m) = Inr cap \<and> of_nat s < cap"
  then show "on_created lib env m s entry st acts = (None, entry_delete st entry, acts)"
    by (simp add: on_created_def)
next
  assume "threshold_cap env (m_channel m) = Inr cap \<and> cap \<le> of_nat s
        \<and> utils_get (text_channels (m_guild m)) ''starboard'' = Some sb \<and> can_send sb
        \<and> mirror_embeds lib env m = Inr es \<and> send env (c_id sb) es = Inr msg"
  then show "on_created lib env m s entry st acts
           = (None, entry_update st entry (m_id msg),
              acts @ [Send (c_id sb) es, ArchiveImage msg])"
    by (simp add: on_created_def post_mirror_def)
qed

text \<open>
  The theorem in a channel of forty people and a bot (cap 4): with three stars the record
  just created is deleted, with five the mirror is posted.
\<close>

theorem listener_cap_witness:
  "threshold_cap (discord 40 5 (Inl NotFound) None) (m_channel (source 40 5)) = Inr 4
   \<and> (of_nat 3 :: rat) < 4
   \<and> on_created (sample_lib 0) (discord 40 5 (Inl NotFound) None) (source 40 5) 3
        (tracked None) [tracked None] []
       = (None, [], [])
   \<and> (4 :: rat) \<le> of_nat 5
   \<and> on_created (sample_lib 0) (discord 40 5 (Inl NotFound) None) (source 40 5) 5
        (tracked None) [tracked None] []
       = (None, [tracked (Some 300)],
          [Send 20 [rendered 40 5, plain], ArchiveImage (mirror 40 300 [rendered 40 5, plain])])"
proof -
  let ?env = "discord 40 5 (Inl NotFound) None"
  let ?sent = "[rendered 40 5, plain]"
  have cap: "threshold_cap ?env (m_channel (source 40 5)) = Inr 4"
    by (simp add: sample_run)
  have below: "threshold_cap ?env (m_channel (source 40 5)) = Inr 4 \<and> (of_nat 3 :: rat) < 4"
    using cap by simp
  have above: "threshold_cap ?env (m_channel (source 40 5)) = Inr 4 \<and> (4 :: rat) \<le> of_nat 5
        \<and> utils_get (text_channels (m_guild (source 40 5))) ''starboard'' = Some starboard
        \<and> can_send starboard
        \<and> mirror_embeds (sample_lib 0) ?env (source 40 5) = Inr ?sent
        \<and> send ?env (c_id starboard) ?sent = Inr (mirror 40 300 ?sent)"
    using cap by (simp add: sample_run)
  note th = listener_cap[where env = ?env and m = "source 40 5" and cap = 4
      and lib = "sample_lib 0" and entry = "tracked None" and st = "[tracked None]"
      and acts = "[]" and sb = starboard and es = ?sent and msg = "mirror 40 300 ?sent"]
  have d: "on_created (sample_lib 0) ?env (source 40 5) 3 (tracked None) [tracked None] []
        = (None, entry_delete [tracked None] (tracked None), [])"
    using th[where s = 3, THEN conjunct2, THEN conjunct2, THEN conjunct2, THEN conjunct2,
        THEN conjunct1] below
    by (rule mp)
  have q: "on_created (sample_lib 0) ?env (source 40 5) 5 (tracked None) [tracked None] []
        = (None, entry_update [tracked None] (tracked None) (m_id (mirror 40 300 ?sent)),
           [] @ [Send (c_id starboard) ?sent, ArchiveImage (mirror 40 300 ?sent)])"
    using th[where s = 5, THEN conjunct2, THEN conjunct2, THEN conjunct2, THEN conjunct2,
        THEN conjunct2] above
    by (rule mp)
  from cap d q show ?thesis
    by (simp add: sample_run mirror_def)
qed

text \<open>
  Claim C3 as it is worded fails. In a guild of twenty people and a bot, all of whom see
  the channel, the specification's cap is 2.1 (the guild's 21 members) and the code's is 2
  (the channel's 20 people): the second star does not reach the first and does reach the
  second, and the mirror is posted. In a thread with an empty member list the
  specification's cap is 0.1 (a population of 0 counting as 1) and the code's is 0.
\<close>

theorem guild_count_cap_counterexample:
  "threshold_cap (discord 20 2 (Inl NotFound) None) (m_channel (source 20 2)) = Inr 2
   \<and> spec_threshold_cap (discord 20 2 (Inl NotFound) None) (m_channel (source 20 2))
        (m_guild (source 20 2)) = 21 / 10
   \<and> star_count_of (source 20 2) = 2
   \<and> on_star_add (sample_lib 0) (discord 20 2 (Inl NotFound) None)
        (star_event 2 REACTION_ADD) []
       = (None, [tracked (Some 300)],
          [Send 20 [rendered 20 2, plain], ArchiveImage (mirror 20 300 [rendered 20 2, plain])])
   \<and> threshold_cap (discord 20 2 (Inl NotFound) None) quiet_thread = Inr 0
   \<and> spec_threshold_cap (discord 20 2 (Inl NotFound) None) quiet_thread (lcc 20) = 1 / 10"
proof -
  have a: "spec_threshold_cap (discord 20 2 (Inl NotFound) None) (general 20) (lcc 20) = 21 / 10"
    by (simp add: spec_threshold_cap_def spec_population_def general_def lcc_def sublist_code)
  have b: "threshold_cap (discord 20 2 (Inl NotFound) None) quiet_thread = Inr 0"
    by (simp add: threshold_cap_def quiet_thread_def discord_def)
  have c: "spec_threshold_cap (discord 20 2 (Inl NotFound) None) quiet_thread (lcc 20) = 1 / 10"
    by (simp add: spec_threshold_cap_def spec_population_def quiet_thread_def discord_def
        sublist_code)
  have d: "on_star_add (sample_lib 0) (discord 20 2 (Inl NotFound) None)
        (star_event 2 REACTION_ADD) []
       = (None, [tracked (Some 300)],
          [Send 20 [rendered 20 2, plain], ArchiveImage (mirror 20 300 [rendered 20 2, plain])])"
    by (simp add: listener_steps sample_run mirror_def)
  show ?thesis
    by (simp add: a b c d sample_run)
qed

subsection \<open>Errors while updating a mirror\<close>

lemma on_existing_reached:
  assumes "\<not> falsy_id (guild_id p)" and "p_emoji p = white_medium_star"
    and "fetch_message env (channel_id p) (message_id p) = Inr m"
    and "u_id (author m) \<noteq> user_id p \<or> p_event_type p \<noteq> REACTION_ADD"
    and "star_count_of m \<noteq> 0"
    and "objects_get st (message_id p) = Inr r"
  shows "on_star_add lib env p st = on_existing lib env m r st []"
  using assms
  by (simp add: on_star_add_reaches synchronise_def get_or_create_existing)

text \<open>
  Claim C5, as the code has it. The message has at least one star, its record is there
  with a mirror id, and the starboard channel can be sent to. When fetching the mirror
  raises \<^verbatim>\<open>discord.NotFound\<close>, a new mirror is posted, its id stored and the archiver
  scheduled, whatever the tally is next to the cap; when the post raises, that exception
  propagates and the store is unchanged. Any other \<^verbatim>\<open>discord.HTTPException\<close> raised by
  the fetch is swallowed: nothing is posted and the store is unchanged. The edit is in the
  \<^verbatim>\<open>else\<close> clause of the \<^verbatim>\<open>try\<close>: an exception it raises propagates to the event
  source, with the store unchanged; when it succeeds the archiver is scheduled.
\<close>

theorem mirror_fetch_errors:
  assumes "\<not> falsy_id (guild_id p)" and "p_emoji p = white_medium_star"
    and "fetch_message env (channel_id p) (message_id p) = Inr m"
    and "u_id (author m) \<noteq> user_id p \<or> p_event_type p \<noteq> REACTION_ADD"
    and "star_count_of m \<noteq> 0"
    and "objects_get st (message_id p) = Inr r"
    and "starboard_message r = Some mid" and "mid \<noteq> 0"
    and "utils_get (text_channels (m_guild m)) ''starboard'' = Some ch" and "can_send ch"
    and "mirror_embeds lib env m = Inr es"
  shows "(fetch_message env (c_id ch) mid = Inl NotFound \<and> send env (c_id ch) es = Inr msg
            \<longrightarrow> on_star_add lib env p st
                 = (None, entry_update st r (m_id msg), [Send (c_id ch) es, ArchiveImage msg]))
       \<and> (fetch_message env (c_id ch) mid = Inl NotFound \<and> send env (c_id ch) es = Inl e
            \<longrightarrow> on_star_add lib env p st = (Some e, st, []))
       \<and> (fetch_message env (c_id ch) mid = Inl e \<and> e \<noteq> NotFound \<and> is_HTTPException e
            \<longrightarrow> on_star_add lib env p st = (None, st, []))
       \<and> (fetch_message env (c_id ch) mid = Inr old \<and> edit env old es = Some e
            \<longrightarrow> on_star_add lib env p st = (Some e, st, []))
       \<and> (fetch_message env (c_id ch) mid = Inr old \<and> edit env old es = None
            \<longrightarrow> on_star_add lib env p st = (None, st, [Edit old es, ArchiveImage old]))"
proof -
  have run: "on_star_add lib env p st = on_existing lib env m r st []"
    using assms(1-6) by (rule on_existing_reached)
  show ?thesis
    unfolding run using assms(7-11)
    by (simp add: on_existing_def post_mirror_def)
qed

text \<open>The theorem for a tracked message whose mirror, message 200, is gone.\<close>

theorem mirror_fetch_errors_witness:
  "fetch_message (discord 2 3 (Inl NotFound) None) 10 100 = Inr (source 2 3)
   \<and> star_count_of (source 2 3) = 3
   \<and> objects_get [tracked (Some 200)] 100 = Inr (tracked (Some 200))
   \<and> fetch_message (discord 2 3 (Inl NotFound) None) 20 200 = Inl NotFound
   \<and> on_star_add (sample_lib 0) (discord 2 3 (Inl NotFound) None)
        (star_event 2 REACTION_ADD) [tracked (Some 200)]
       = (None, [tracked (Some 300)],
          [Send 20 [rendered 2 3, plain], ArchiveImage (mirror 2 300 [rendered 2 3, plain])])"
proof -
  let ?env = "discord 2 3 (Inl NotFound) None"
  let ?p = "star_event 2 REACTION_ADD"
  let ?sent = "[rendered 2 3, plain]"
  have 1: "\<not> falsy_id (guild_id ?p)" and 2: "p_emoji ?p = white_medium_star"
    and 3: "fetch_message ?env (channel_id ?p) (message_id ?p) = Inr (source 2 3)"
    and 4: "u_id (author (source 2 3)) \<noteq> user_id ?p \<or> p_event_type ?p \<noteq> REACTION_ADD"
    and 5: "star_count_of (source 2 3) \<noteq> 0"
    and 6: "objects_get [tracked (Some 200)] (message_id ?p) = Inr (tracked (Some 200))"
    and 7: "starboard_message (tracked (Some 200)) = Some 200" and 8: "(200 :: nat) \<noteq> 0"
    and 9: "utils_get (text_channels (m_guild (source 2 3))) ''starboard'' = Some starboard"
    and 10: "can_send starboard"
    and 11: "mirror_embeds (sample_lib 0) ?env (source 2 3) = Inr ?sent"
    by (simp_all add: sample_run)
  have nf: "fetch_message ?env (c_id starboard) 200 = Inl NotFound
            \<and> send ?env (c_id starboard) ?sent = Inr (mirror 2 300 ?sent)"
    by (simp add: sample_run)
  have "on_star_add (sample_lib 0) ?env ?p [tracked (Some 200)]
        = (None, entry_update [tracked (Some 200)] (tracked (Some 200)) (m_id (mirror 2 300 ?sent)),
           [Send (c_id starboard) ?sent, ArchiveImage (mirror 2 300 ?sent)])"
    using mirror_fetch_errors[OF 1 2 3 4 5 6 7 8 9 10 11, where msg = "mirror 2 300 ?sent",
        THEN conjunct1] nf
    by (rule mp)
  then show ?thesis
    by (simp add: sample_run mirror_def)
qed

text \<open>
  Claim C5 as it is worded fails twice. With three stars in a channel of two people (cap
  0.2), a fetch of the mirror that raises a server error posts no new mirror and leaves
  the stored id as it was; and an edit that raises the same propagates it.
\<close>

theorem mirror_fetch_errors_counterexample:
  "star_count_of (source 2 3) = 3
   \<and> threshold_cap (discord 2 3 (Inl HTTPException) None) (m_channel (source 2 3)) = Inr (2 / 10)
   \<and> fetch_message (discord 2 3 (Inl HTTPException) None) 20 200 = Inl HTTPException
   \<and> on_star_add (sample_lib 0) (discord 2 3 (Inl HTTPException) None)
        (star_event 2 REACTION_ADD) [tracked (Some 200)]
       = (None, [tracked (Some 200)], [])
   \<and> fetch_message (discord 2 3 (Inr (mirror 2 200 [plain])) (Some HTTPException)) 20 200
       = Inr (mirror 2 200 [plain])
   \<and> edit (discord 2 3 (Inr (mirror 2 200 [plain])) (Some HTTPException))
        (mirror 2 200 [plain]) [rendered 2 3, plain] = Some HTTPException
   \<and> on_star_add (sample_lib 0) (discord 2 3 (Inr (mirror 2 200 [plain])) (Some HTTPException))
        (star_event 2 REACTION_ADD) [tracked (Some 200)]
       = (Some HTTPException, [tracked (Some 200)], [])"
  by (simp add: listener_steps sample_run)

end
